theory Spec2Isabelle
  imports Complex_Main
begin

section \<open>Python values, errors and library calls\<close>

text \<open>
  The two scripts (\<^verbatim>\<open>session_filter.py\<close>, \<^verbatim>\<open>validate_data.py\<close>) work on records
  loaded from JSON: dictionaries from field names to JSON values. Exceptions are values of
  \<open>py_error\<close>; a function that can raise returns \<open>py_error + 'a\<close>.

  The conversion of a timestamp to a \<^verbatim>\<open>datetime\<close>, which decides the hour of a record, is
  modelled with the doubles the code computes (section Instants). Elsewhere Python floats
  are modelled as real numbers: exact arithmetic, no rounding, no overflow, no infinities.
  This concerns the seconds of a gap, the seconds handed to the rendering of a timestamp,
  the prices and their statistics.
\<close>

datatype py_error =
    KeyError
  | ValueError
  | TypeError
  | ZeroDivisionError
  | OutOfRangeError
    \<comment> \<open>\<^verbatim>\<open>datetime\<close> refuses an instant outside the years 1 to 9999 and \<^verbatim>\<open>timedelta\<close> more
        than 999999999 days (they raise ValueError, OverflowError or OSError, depending on
        the magnitude and the platform)\<close>

datatype pyval =
    VNone
  | VBool bool
  | VInt int
  | VFloat real
  | VStr string
  | VList "pyval list"
  | VDict "(string \<times> pyval) list"

type_synonym market_record = "string \<rightharpoonup> pyval"

text \<open>
  Library calls whose result is not fixed by the program text are parameters of the model:
  the parsing of a string by \<^verbatim>\<open>int(s)\<close> and \<^verbatim>\<open>float(s)\<close> (\<open>None\<close> is a ValueError), and the
  rendering \<^verbatim>\<open>datetime.fromtimestamp(seconds).strftime("%Y-%m-%d %H:%M:%S")\<close>, which
  depends on the local time zone of the host and raises outside the range of dates.
\<close>

record pylib =
  int_of_str :: "string \<Rightarrow> int option"
  float_of_str :: "string \<Rightarrow> real option"
  strftime_local :: "real \<Rightarrow> py_error + string"

text \<open>\<^verbatim>\<open>record.get(key)\<close>: the value, or \<^verbatim>\<open>None\<close> for an absent key.\<close>

definition dict_get :: "market_record \<Rightarrow> string \<Rightarrow> pyval" where
  "dict_get r k = (case r k of None \<Rightarrow> VNone | Some v \<Rightarrow> v)"

text \<open>The truth value of an object, as \<^verbatim>\<open>or\<close>, \<^verbatim>\<open>not\<close> and \<^verbatim>\<open>if\<close> test it.\<close>

fun truthy :: "pyval \<Rightarrow> bool" where
  "truthy VNone = False"
| "truthy (VBool b) = b"
| "truthy (VInt i) = (i \<noteq> 0)"
| "truthy (VFloat x) = (x \<noteq> 0)"
| "truthy (VStr s) = (s \<noteq> [])"
| "truthy (VList vs) = (vs \<noteq> [])"
| "truthy (VDict kvs) = (kvs \<noteq> [])"

text \<open>\<^verbatim>\<open>a or b\<close>: the first operand when it is true, else the second.\<close>

definition py_or :: "pyval \<Rightarrow> pyval \<Rightarrow> pyval" where
  "py_or a b = (if truthy a then a else b)"

text \<open>\<^verbatim>\<open>int(x)\<close>: a float is truncated towards zero.\<close>

fun py_int :: "pylib \<Rightarrow> pyval \<Rightarrow> py_error + int" where
  "py_int L VNone = Inl TypeError"
| "py_int L (VBool b) = Inr (if b then 1 else 0)"
| "py_int L (VInt i) = Inr i"
| "py_int L (VFloat x) = Inr (if 0 \<le> x then \<lfloor>x\<rfloor> else \<lceil>x\<rceil>)"
| "py_int L (VStr s) = (case int_of_str L s of None \<Rightarrow> Inl ValueError | Some i \<Rightarrow> Inr i)"
| "py_int L (VList vs) = Inl TypeError"
| "py_int L (VDict kvs) = Inl TypeError"

text \<open>\<^verbatim>\<open>float(x)\<close>.\<close>

fun py_float :: "pylib \<Rightarrow> pyval \<Rightarrow> py_error + real" where
  "py_float L VNone = Inl TypeError"
| "py_float L (VBool b) = Inr (if b then 1 else 0)"
| "py_float L (VInt i) = Inr (real_of_int i)"
| "py_float L (VFloat x) = Inr x"
| "py_float L (VStr s) = (case float_of_str L s of None \<Rightarrow> Inl ValueError | Some x \<Rightarrow> Inr x)"
| "py_float L (VList vs) = Inl TypeError"
| "py_float L (VDict kvs) = Inl TypeError"

text \<open>
  The timestamp of a record, as all three loops of the scripts read it:
  \<^verbatim>\<open>record.get("ts_event") or record.get("ts_recv") or record.get("timestamp")\<close>.
\<close>

definition record_timestamp :: "market_record \<Rightarrow> pyval" where
  "record_timestamp r =
     py_or (py_or (dict_get r ''ts_event'') (dict_get r ''ts_recv'')) (dict_get r ''timestamp'')"


section \<open>Instants\<close>

text \<open>
  A \<^verbatim>\<open>datetime\<close> in UTC is modelled by its microseconds since the epoch; the years 1 to
  9999 are the instants between \<open>min_datetime_us\<close> and \<open>max_datetime_us\<close>.
\<close>

definition min_datetime_us :: int where
  "min_datetime_us = - 62135596800000000"

definition max_datetime_us :: int where
  "max_datetime_us = 253402300799999999"

text \<open>
  A double is held as the exact fraction it denotes: numerator and positive denominator.
  \<open>nearest_double a b\<close> is the double nearest to the quotient of the integers \<open>a\<close> and
  \<open>b > 0\<close>, ties to the even significand of 53 bits: it is the value of the true division
  \<^verbatim>\<open>a / b\<close> of two integers, and of a product of doubles whose exact value is \<open>a / b\<close>. The
  doubles of the conversion below are all in the normal range (a quotient of a non-zero
  integer by \<^verbatim>\<open>1_000_000_000\<close> is at least one billionth). For a quotient too large for a
  double the division raises in Python; the model goes on with the large value, which the
  range check refuses.
\<close>

type_synonym double = "int \<times> int"

text \<open>The number of binary digits of a positive integer.\<close>

function bit_length :: "int \<Rightarrow> int" where
  "bit_length n = (if n \<le> 0 then 0 else 1 + bit_length (n div 2))"
  by pat_completeness auto
termination
  by (relation "measure nat") auto

text \<open>The integer nearest to \<open>num / den\<close>, halves to the even one (\<open>den > 0\<close>).\<close>

definition round_half_even_div :: "int \<Rightarrow> int \<Rightarrow> int" where
  "round_half_even_div num den =
     (let q = num div den; r = num mod den
      in if 2 * r < den then q
         else if den < 2 * r then q + 1
         else if even q then q else q + 1)"

definition nearest_double :: "int \<Rightarrow> int \<Rightarrow> double" where
  "nearest_double a b =
     (if a = 0 then (0, 1)
      else (let n = \<bar>a\<bar>;
                k = bit_length n - bit_length b;
                e = (if (if 0 \<le> k then b * 2 ^ nat k \<le> n else b \<le> n * 2 ^ nat (- k))
                     then k else k - 1);
                shift = 52 - e
            in if 0 \<le> shift
               then (sgn a * round_half_even_div (n * 2 ^ nat shift) b, 2 ^ nat shift)
               else (sgn a * round_half_even_div n (b * 2 ^ nat (- shift)) * 2 ^ nat (- shift),
                     1)))"

text \<open>
  \<^verbatim>\<open>datetime.fromtimestamp(ts_seconds, tz=timezone.utc)\<close> on a double: the integer part and
  the fraction of the seconds (\<^verbatim>\<open>modf\<close>, the fraction has the sign of the seconds), the
  fraction times one million as a double, rounded to an integer number of microseconds,
  halves to even; it raises outside the years 1 to 9999.
\<close>

definition fromtimestamp_utc :: "double \<Rightarrow> py_error + int" where
  "fromtimestamp_utc ts_seconds =
     (case ts_seconds of
        (num, den) \<Rightarrow>
          (let intpart = (if 0 \<le> num then num div den else - ((- num) div den));
               floatpart = nearest_double ((num - intpart * den) * 1000000) den;
               us = intpart * 1000000 + round_half_even_div (fst floatpart) (snd floatpart)
           in if min_datetime_us \<le> us \<and> us \<le> max_datetime_us then Inr us
              else Inl OutOfRangeError))"

text \<open>\<^verbatim>\<open>dt + timedelta(hours=-5)\<close>: the simplified conversion to Eastern time.\<close>

definition et_offset_us :: int where
  "et_offset_us = - 5 * 3600000000"

definition plus_et_offset :: "int \<Rightarrow> py_error + int" where
  "plus_et_offset us =
     (let us' = us + et_offset_us
      in if min_datetime_us \<le> us' \<and> us' \<le> max_datetime_us then Inr us'
         else Inl OutOfRangeError)"

text \<open>
  The instant of a nanosecond timestamp in the Eastern frame (\<^verbatim>\<open>dt_et\<close>), as
  \<^verbatim>\<open>is_in_session\<close> and \<^verbatim>\<open>filter_session_transitions\<close> compute it:
  \<^verbatim>\<open>ts_seconds = timestamp_ns / 1_000_000_000\<close>, then
  \<^verbatim>\<open>dt = datetime.fromtimestamp(ts_seconds, tz=timezone.utc)\<close>, then \<^verbatim>\<open>dt + et_offset\<close>.
\<close>

definition dt_et :: "int \<Rightarrow> py_error + int" where
  "dt_et ts_ns =
     (let ts_seconds = nearest_double ts_ns 1000000000
      in case fromtimestamp_utc ts_seconds of
           Inl e \<Rightarrow> Inl e
         | Inr us \<Rightarrow> plus_et_offset us)"

text \<open>\<^verbatim>\<open>dt.hour\<close>.\<close>

definition hour_of :: "int \<Rightarrow> int" where
  "hour_of us = (us div 3600000000) mod 24"


section \<open>Trading sessions (\<^verbatim>\<open>session_filter.py\<close>)\<close>

datatype TradingSession = ASIAN | LONDON | NY

text \<open>\<^verbatim>\<open>session.value\<close>: name, start hour, end hour (in ET).\<close>

fun session_value :: "TradingSession \<Rightarrow> string \<times> int \<times> int" where
  "session_value ASIAN = (''Asian'', 18, 2)"
| "session_value LONDON = (''London'', 2, 8)"
| "session_value NY = (''NY'', 8, 16)"

text \<open>\<^verbatim>\<open>self.sessions\<close>, set by \<^verbatim>\<open>SessionFilter.__init__\<close>.\<close>

definition sessions :: "string \<rightharpoonup> TradingSession" where
  "sessions = [''Asian'' \<mapsto> ASIAN, ''London'' \<mapsto> LONDON, ''NY'' \<mapsto> NY]"

text \<open>
  \<^verbatim>\<open>get_current_session\<close>, from the hour \<^verbatim>\<open>dt.hour\<close> (0 to 23) of the parsed UTC timestamp;
  \<open>session_of_et_hour\<close> is its chain of comparisons on \<^verbatim>\<open>et_hour\<close>.
\<close>

definition session_of_et_hour :: "int \<Rightarrow> string" where
  "session_of_et_hour et_hour =
     (if 18 \<le> et_hour \<or> et_hour < 2 then ''Asian''
      else if 2 \<le> et_hour \<and> et_hour < 8 then ''London''
      else ''NY'')"

definition get_current_session :: "int \<Rightarrow> string" where
  "get_current_session dt_hour = session_of_et_hour ((dt_hour - 5) mod 24)"

text \<open>
  \<^verbatim>\<open>is_in_session\<close>; \<open>hour_in_session\<close> is its test of \<^verbatim>\<open>hour\<close> against the start and
  end hours of the session.
\<close>

definition hour_in_session :: "int \<Rightarrow> TradingSession \<Rightarrow> bool" where
  "hour_in_session hour session =
     (case session_value session of
        (_, start_hour, end_hour) \<Rightarrow>
          if start_hour < end_hour then start_hour \<le> hour \<and> hour < end_hour
          else hour \<ge> start_hour \<or> hour < end_hour)"

definition is_in_session :: "int \<Rightarrow> TradingSession \<Rightarrow> py_error + bool" where
  "is_in_session timestamp_ns session =
     (case dt_et timestamp_ns of
        Inl e \<Rightarrow> Inl e
      | Inr us \<Rightarrow> Inr (hour_in_session (hour_of us) session))"

text \<open>\<^verbatim>\<open>session_enums = [self.sessions[s] for s in sessions]\<close>: a KeyError at the first
  unknown name.\<close>

fun lookup_sessions :: "string list \<Rightarrow> py_error + TradingSession list" where
  "lookup_sessions [] = Inr []"
| "lookup_sessions (s # ss) =
     (case sessions s of
        None \<Rightarrow> Inl KeyError
      | Some e \<Rightarrow>
          (case lookup_sessions ss of
             Inl err \<Rightarrow> Inl err
           | Inr es \<Rightarrow> Inr (e # es)))"

text \<open>
  The inner loop of \<^verbatim>\<open>filter_by_session\<close>: the record is kept at the first session that
  holds its timestamp (\<^verbatim>\<open>break\<close>); \<^verbatim>\<open>int(ts_ns)\<close> is evaluated at each turn.
\<close>

fun in_any_session :: "pylib \<Rightarrow> pyval \<Rightarrow> TradingSession list \<Rightarrow> py_error + bool" where
  "in_any_session L ts_ns [] = Inr False"
| "in_any_session L ts_ns (session # rest) =
     (case py_int L ts_ns of
        Inl e \<Rightarrow> Inl e
      | Inr n \<Rightarrow>
          (case is_in_session n session of
             Inl e \<Rightarrow> Inl e
           | Inr b \<Rightarrow> if b then Inr True else in_any_session L ts_ns rest))"

text \<open>The loop over the records of \<^verbatim>\<open>filter_by_session\<close>; the result is \<^verbatim>\<open>filtered\<close>.\<close>

fun session_filter_loop ::
  "pylib \<Rightarrow> TradingSession list \<Rightarrow> market_record list \<Rightarrow> py_error + market_record list" where
  "session_filter_loop L session_enums [] = Inr []"
| "session_filter_loop L session_enums (r # rs) =
     (let ts_ns = record_timestamp r
      in if \<not> truthy ts_ns then session_filter_loop L session_enums rs
         else (case in_any_session L ts_ns session_enums of
                 Inl e \<Rightarrow> Inl e
               | Inr b \<Rightarrow>
                   (case session_filter_loop L session_enums rs of
                      Inl e \<Rightarrow> Inl e
                    | Inr filtered \<Rightarrow> Inr (if b then r # filtered else filtered))))"

text \<open>
  \<^verbatim>\<open>filter_by_session\<close>. The last statement before the return prints the share
  \<^verbatim>\<open>len(filtered)/len(data)*100\<close>, a division by the number of input records.
\<close>

definition filter_by_session ::
  "pylib \<Rightarrow> market_record list \<Rightarrow> string list \<Rightarrow> py_error + market_record list" where
  "filter_by_session L data session_names =
     (case lookup_sessions session_names of
        Inl e \<Rightarrow> Inl e
      | Inr session_enums \<Rightarrow>
          (case session_filter_loop L session_enums data of
             Inl e \<Rightarrow> Inl e
           | Inr filtered \<Rightarrow>
               if length data = 0 then Inl ZeroDivisionError else Inr filtered))"

text \<open>\<^verbatim>\<open>filter_session_transitions\<close>.\<close>

definition transitions :: "int list" where
  "transitions = [2, 8, 16, 18]"

text \<open>\<^verbatim>\<open>timedelta(minutes=m)\<close>, in microseconds.\<close>

definition timedelta_minutes :: "int \<Rightarrow> py_error + int" where
  "timedelta_minutes m =
     (let us = m * 60000000; days = us div 86400000000
      in if - 999999999 \<le> days \<and> days \<le> 999999999 then Inr us else Inl OutOfRangeError)"

text \<open>\<^verbatim>\<open>td.total_seconds()\<close>.\<close>

definition total_seconds :: "int \<Rightarrow> real" where
  "total_seconds us = real_of_int us / 1000000"

text \<open>\<^verbatim>\<open>dt.replace(hour=h, minute=0, second=0, microsecond=0)\<close>: the same calendar day.\<close>

definition replace_hour :: "int \<Rightarrow> int \<Rightarrow> int" where
  "replace_hour us h = us - us mod 86400000000 + h * 3600000000"

fun near_transition :: "int \<Rightarrow> int \<Rightarrow> int list \<Rightarrow> bool" where
  "near_transition dt_et_us transition_window [] = False"
| "near_transition dt_et_us transition_window (transition_hour # rest) =
     (let transition_dt = replace_hour dt_et_us transition_hour;
          time_diff = \<bar>total_seconds (dt_et_us - transition_dt)\<bar>
      in if time_diff \<le> total_seconds transition_window then True
         else near_transition dt_et_us transition_window rest)"

fun transitions_loop ::
  "pylib \<Rightarrow> int \<Rightarrow> market_record list \<Rightarrow> py_error + market_record list" where
  "transitions_loop L transition_window [] = Inr []"
| "transitions_loop L transition_window (r # rs) =
     (let ts_ns = record_timestamp r
      in if \<not> truthy ts_ns then transitions_loop L transition_window rs
         else (case py_int L ts_ns of
                 Inl e \<Rightarrow> Inl e
               | Inr n \<Rightarrow>
                   (case dt_et n of
                      Inl e \<Rightarrow> Inl e
                    | Inr us \<Rightarrow>
                        (case transitions_loop L transition_window rs of
                           Inl e \<Rightarrow> Inl e
                         | Inr filtered \<Rightarrow>
                             Inr (if near_transition us transition_window transitions
                                  then r # filtered else filtered)))))"

definition filter_session_transitions ::
  "pylib \<Rightarrow> market_record list \<Rightarrow> int \<Rightarrow> int \<Rightarrow> py_error + market_record list" where
  "filter_session_transitions L data minutes_before minutes_after =
     (case timedelta_minutes (minutes_before + minutes_after) of
        Inl e \<Rightarrow> Inl e
      | Inr transition_window \<Rightarrow> transitions_loop L transition_window data)"


section \<open>The data validator (\<^verbatim>\<open>validate_data.py\<close>)\<close>

text \<open>
  An issue is a dictionary with the keys \<^verbatim>\<open>type\<close> and \<^verbatim>\<open>severity\<close>, a \<^verbatim>\<open>message\<close> and the
  fields of its kind. One constructor stands for each kind and carries the fields of the
  kind; the message is a text rendered from these fields and is left out.
\<close>

record gap_info =
  index :: nat
  gap_seconds :: real
  gap_minutes :: real
  before :: string
  after :: string

datatype issue =
    TimestampGap gap_info
  | DuplicateTimestamp string nat
  | PriceOutlier real real real
  | NegativePrice real
  | UnexpectedRecordCount nat int
  | MissingField string nat

fun issue_type :: "issue \<Rightarrow> string" where
  "issue_type (TimestampGap g) = ''timestamp_gap''"
| "issue_type (DuplicateTimestamp ts c) = ''duplicate_timestamp''"
| "issue_type (PriceOutlier p m sd) = ''price_outlier''"
| "issue_type (NegativePrice p) = ''negative_price''"
| "issue_type (UnexpectedRecordCount a e) = ''unexpected_record_count''"
| "issue_type (MissingField f c) = ''missing_field''"

fun severity :: "issue \<Rightarrow> string" where
  "severity (TimestampGap g) = ''warning''"
| "severity (DuplicateTimestamp ts c) = ''error''"
| "severity (PriceOutlier p m sd) = ''warning''"
| "severity (NegativePrice p) = ''error''"
| "severity (UnexpectedRecordCount a e) = ''warning''"
| "severity (MissingField f c) = ''error''"

text \<open>The instance: the fields that \<^verbatim>\<open>__init__\<close> sets.\<close>

record validator =
  schema :: string
  max_gap_seconds :: int
  price_outlier_std :: real
  issues :: "issue list"

definition DataValidator_init :: "string \<Rightarrow> int \<Rightarrow> real \<Rightarrow> validator" where
  "DataValidator_init schema_arg max_gap_minutes price_outlier_std_arg =
     \<lparr>schema = schema_arg,
      max_gap_seconds = max_gap_minutes * 60,
      price_outlier_std = price_outlier_std_arg,
      issues = []\<rparr>"

text \<open>
  The dictionary each check returns, one constructor for each shape, the value of the key
  \<^verbatim>\<open>valid\<close> first.
\<close>

datatype check_result =
    GapNote bool "gap_info list" string
    \<comment> \<open>valid, gaps, note\<close>
  | GapResult bool nat "gap_info list" nat
    \<comment> \<open>valid, gaps_found, gaps, total_gaps\<close>
  | DuplicateResult bool nat nat
    \<comment> \<open>valid, duplicates_found, duplicate_timestamps\<close>
  | PriceNote bool string
    \<comment> \<open>valid, note\<close>
  | PriceResult bool real real real real nat nat nat
    \<comment> \<open>valid, min_price, max_price, mean_price, std_dev, negative_prices, zero_prices,
        outliers\<close>
  | CountResult bool nat "int option" string
    \<comment> \<open>valid, actual_count, expected_count, note\<close>
  | CompletenessNote bool string
    \<comment> \<open>valid, note\<close>
  | CompletenessResult bool "(string \<times> nat) list"
    \<comment> \<open>valid, missing_fields\<close>

text \<open>\<^verbatim>\<open>check.get("valid", True)\<close>: every shape has the key.\<close>

fun check_valid :: "check_result \<Rightarrow> bool" where
  "check_valid (GapNote v gaps note) = v"
| "check_valid (GapResult v found gaps tot) = v"
| "check_valid (DuplicateResult v found n) = v"
| "check_valid (PriceNote v note) = v"
| "check_valid (PriceResult v lo hi m sd neg zero out) = v"
| "check_valid (CountResult v actual expected note) = v"
| "check_valid (CompletenessNote v note) = v"
| "check_valid (CompletenessResult v missing) = v"

text \<open>The report; the key \<^verbatim>\<open>issues\<close> is present or not.\<close>

record report =
  total_records :: nat
  valid :: bool
  checks :: "(string \<times> check_result) list"
  report_issues :: "issue list option"

text \<open>\<^verbatim>\<open>needle in haystack\<close> on strings.\<close>

fun starts_with :: "string \<Rightarrow> string \<Rightarrow> bool" where
  "starts_with [] s = True"
| "starts_with (c # cs) [] = False"
| "starts_with (c # cs) (d # ds) = (c = d \<and> starts_with cs ds)"

fun str_contains :: "string \<Rightarrow> string \<Rightarrow> bool" where
  "str_contains needle [] = (needle = [])"
| "str_contains needle (c # cs) = (starts_with needle (c # cs) \<or> str_contains needle cs)"

text \<open>\<^verbatim>\<open>counts[key] += 1\<close> on a \<^verbatim>\<open>defaultdict(int)\<close>, which keeps the keys in the order of their
  first insertion.\<close>

fun incr_count :: "'k \<Rightarrow> ('k \<times> nat) list \<Rightarrow> ('k \<times> nat) list" where
  "incr_count k [] = [(k, 1)]"
| "incr_count k ((k', c) # rest) =
     (if k = k' then (k', c + 1) # rest else (k', c) # incr_count k rest)"

text \<open>\<^verbatim>\<open>_format_timestamp\<close>.\<close>

definition format_timestamp :: "pylib \<Rightarrow> int \<Rightarrow> py_error + string" where
  "format_timestamp L ts_ns =
     (let ts_seconds = real_of_int ts_ns / 1000000000 in strftime_local L ts_seconds)"

text \<open>\<^verbatim>\<open>_extract_timestamps\<close>.\<close>

fun extract_timestamps :: "pylib \<Rightarrow> market_record list \<Rightarrow> py_error + int list" where
  "extract_timestamps L [] = Inr []"
| "extract_timestamps L (r # rs) =
     (let ts = record_timestamp r
      in if truthy ts
         then (case py_int L ts of
                 Inl e \<Rightarrow> Inl e
               | Inr n \<Rightarrow>
                   (case extract_timestamps L rs of
                      Inl e \<Rightarrow> Inl e
                    | Inr timestamps \<Rightarrow> Inr (n # timestamps)))
         else extract_timestamps L rs)"

text \<open>
  \<^verbatim>\<open>_extract_prices\<close>. An integer above 1000000 is a fixed-point price and is divided by
  \<^verbatim>\<open>1_000_000_000\<close>; \<^verbatim>\<open>isinstance(price, int)\<close> holds of a Boolean too, which is never above
  1000000.
\<close>

definition rescale_price :: "pyval \<Rightarrow> pyval" where
  "rescale_price price =
     (case price of
        VInt i \<Rightarrow> if i > 1000000 then VFloat (real_of_int i / 1000000000) else VInt i
      | _ \<Rightarrow> price)"

fun extract_prices :: "pylib \<Rightarrow> market_record list \<Rightarrow> py_error + real list" where
  "extract_prices L [] = Inr []"
| "extract_prices L (r # rs) =
     (case r ''close'' of
        Some price \<Rightarrow>
          (case py_float L (rescale_price price) of
             Inl e \<Rightarrow> Inl e
           | Inr p \<Rightarrow>
               (case extract_prices L rs of
                  Inl e \<Rightarrow> Inl e
                | Inr prices \<Rightarrow> Inr (p # prices)))
      | None \<Rightarrow>
          (case r ''price'' of
             Some price \<Rightarrow>
               (case py_float L (rescale_price price) of
                  Inl e \<Rightarrow> Inl e
                | Inr p \<Rightarrow>
                    (case extract_prices L rs of
                       Inl e \<Rightarrow> Inl e
                     | Inr prices \<Rightarrow> Inr (p # prices)))
           | None \<Rightarrow> extract_prices L rs))"

text \<open>
  \<^verbatim>\<open>check_timestamp_gaps\<close>. The loop over \<^verbatim>\<open>range(len(sorted_ts) - 1)\<close> walks the consecutive
  pairs with their index; it appends each gap to \<^verbatim>\<open>gaps\<close> and an issue holding the same
  fields to \<^verbatim>\<open>self.issues\<close>, so the new issues are the gaps in order.
\<close>

fun gap_loop :: "pylib \<Rightarrow> int \<Rightarrow> nat \<Rightarrow> int list \<Rightarrow> py_error + gap_info list" where
  "gap_loop L max_gap i (a # b # rest) =
     (let gap_ns = b - a;
          gap_secs = real_of_int gap_ns / 1000000000
      in if gap_secs > real_of_int max_gap
         then (case format_timestamp L a of
                 Inl e \<Rightarrow> Inl e
               | Inr before_text \<Rightarrow>
                   (case format_timestamp L b of
                      Inl e \<Rightarrow> Inl e
                    | Inr after_text \<Rightarrow>
                        (case gap_loop L max_gap (i + 1) (b # rest) of
                           Inl e \<Rightarrow> Inl e
                         | Inr gaps \<Rightarrow>
                             Inr (\<lparr>index = i, gap_seconds = gap_secs,
                                   gap_minutes = gap_secs / 60,
                                   before = before_text, after = after_text\<rparr> # gaps))))
         else gap_loop L max_gap (i + 1) (b # rest))"
| "gap_loop L max_gap i sorted_ts = Inr []"

definition check_timestamp_gaps ::
  "pylib \<Rightarrow> validator \<Rightarrow> market_record list \<Rightarrow> py_error + check_result \<times> validator" where
  "check_timestamp_gaps L v data =
     (case extract_timestamps L data of
        Inl e \<Rightarrow> Inl e
      | Inr timestamps \<Rightarrow>
          if length timestamps < 2
          then Inr (GapNote True [] ''Insufficient data for gap detection'', v)
          else (let sorted_ts = sort timestamps
                in case gap_loop L (max_gap_seconds v) 0 sorted_ts of
                     Inl e \<Rightarrow> Inl e
                   | Inr gaps \<Rightarrow>
                       Inr (GapResult (length gaps = 0) (length gaps) (take 10 gaps)
                              (length gaps),
                            v\<lparr>issues := issues v @ map TimestampGap gaps\<rparr>)))"

text \<open>
  \<^verbatim>\<open>check_duplicates\<close>: the counts of the timestamps, the pairs with a count above one, and
  an issue for each of the first ten of them.
\<close>

fun duplicate_issues :: "pylib \<Rightarrow> (int \<times> nat) list \<Rightarrow> py_error + issue list" where
  "duplicate_issues L [] = Inr []"
| "duplicate_issues L ((ts, count) # rest) =
     (case format_timestamp L ts of
        Inl e \<Rightarrow> Inl e
      | Inr ts_text \<Rightarrow>
          (case duplicate_issues L rest of
             Inl e \<Rightarrow> Inl e
           | Inr new \<Rightarrow> Inr (DuplicateTimestamp ts_text count # new)))"

definition check_duplicates ::
  "pylib \<Rightarrow> validator \<Rightarrow> market_record list \<Rightarrow> py_error + check_result \<times> validator" where
  "check_duplicates L v data =
     (case extract_timestamps L data of
        Inl e \<Rightarrow> Inl e
      | Inr timestamps \<Rightarrow>
          (let timestamp_counts = foldl (\<lambda>counts ts. incr_count ts counts) [] timestamps;
               duplicates = filter (\<lambda>(ts, count). count > 1) timestamp_counts
           in case duplicate_issues L (take 10 duplicates) of
                Inl e \<Rightarrow> Inl e
              | Inr new \<Rightarrow>
                  Inr (DuplicateResult (length duplicates = 0) (length duplicates)
                         (length duplicates),
                       v\<lparr>issues := issues v @ new\<rparr>)))"

text \<open>
  \<^verbatim>\<open>check_price_range\<close>. The loop over the prices collects the outliers and appends an
  issue for each of them while the list of outliers has at most ten elements.
\<close>

fun outlier_loop ::
  "real \<Rightarrow> real \<Rightarrow> real \<Rightarrow> real list \<Rightarrow> real list \<Rightarrow> issue list \<Rightarrow> real list \<times> issue list" where
  "outlier_loop threshold mean_price std_dev [] outliers new = (outliers, new)"
| "outlier_loop threshold mean_price std_dev (p # ps) outliers new =
     (if \<bar>p - mean_price\<bar> > threshold * std_dev
      then (let outliers' = outliers @ [p]
            in outlier_loop threshold mean_price std_dev ps outliers'
                 (if length outliers' \<le> 10
                  then new @ [PriceOutlier p mean_price std_dev] else new))
      else outlier_loop threshold mean_price std_dev ps outliers new)"

text \<open>\<^verbatim>\<open>min(prices)\<close> and \<^verbatim>\<open>max(prices)\<close> of a list with a first element.\<close>

definition price_min :: "real \<Rightarrow> real list \<Rightarrow> real" where
  "price_min p ps = foldl min p ps"

definition price_max :: "real \<Rightarrow> real list \<Rightarrow> real" where
  "price_max p ps = foldl max p ps"

text \<open>The statistics of two prices or more: mean, standard deviation, outliers and their
  issues.\<close>

definition price_statistics ::
  "real \<Rightarrow> real list \<Rightarrow> real \<times> real \<times> real list \<times> issue list" where
  "price_statistics threshold prices =
     (let mean_price = sum_list prices / real (length prices);
          variance = sum_list (map (\<lambda>p. (p - mean_price) ^ 2) prices) / real (length prices);
          std_dev = sqrt variance;
          (outliers, new) = outlier_loop threshold mean_price std_dev prices [] []
      in (mean_price, std_dev, outliers, new))"

definition check_price_range ::
  "pylib \<Rightarrow> validator \<Rightarrow> market_record list \<Rightarrow> py_error + check_result \<times> validator" where
  "check_price_range L v data =
     (case extract_prices L data of
        Inl e \<Rightarrow> Inl e
      | Inr prices \<Rightarrow>
          (case prices of
             [] \<Rightarrow> Inr (PriceNote True ''No price data to validate'', v)
           | p0 # rest \<Rightarrow>
               (let negative_prices = filter (\<lambda>p. p < 0) prices;
                    zero_prices = filter (\<lambda>p. p = 0) prices;
                    (mean_price, std_dev, outliers, new) =
                      (if length prices > 1
                       then price_statistics (price_outlier_std v) prices
                       else (p0, 0, [], []));
                    negative_issues = map NegativePrice (take 10 negative_prices);
                    valid_flag = (length negative_prices = 0 \<and> length zero_prices = 0)
                in Inr (PriceResult valid_flag (price_min p0 rest) (price_max p0 rest)
                          mean_price std_dev (length negative_prices) (length zero_prices)
                          (length outliers),
                        v\<lparr>issues := issues v @ new @ negative_issues\<rparr>))))"

text \<open>\<^verbatim>\<open>_estimate_expected_count\<close>: every branch returns \<^verbatim>\<open>None\<close>.\<close>

definition estimate_expected_count :: "validator \<Rightarrow> market_record list \<Rightarrow> int option" where
  "estimate_expected_count v data =
     (if str_contains ''ohlcv'' (schema v)
      then (if str_contains ''1h'' (schema v) then None
            else if str_contains ''1d'' (schema v) then None
            else None)
      else None)"

text \<open>\<^verbatim>\<open>check_record_count\<close>; the test \<^verbatim>\<open>if expected_count and ...\<close> is false of \<^verbatim>\<open>None\<close> and of 0.\<close>

definition check_record_count ::
  "validator \<Rightarrow> market_record list \<Rightarrow> check_result \<times> validator" where
  "check_record_count v data =
     (let expected_count = estimate_expected_count v data;
          note = ''Expected count is estimated based on schema and date range''
      in case expected_count of
           None \<Rightarrow> (CountResult True (length data) expected_count note, v)
         | Some e \<Rightarrow>
             if e \<noteq> 0 \<and> real_of_int \<bar>int (length data) - e\<bar> > real_of_int e * (1 / 10)
             then (CountResult False (length data) expected_count note,
                   v\<lparr>issues := issues v @ [UnexpectedRecordCount (length data) e]\<rparr>)
             else (CountResult True (length data) expected_count note, v))"

text \<open>\<^verbatim>\<open>_get_required_fields\<close> and \<^verbatim>\<open>check_completeness\<close> (the first 100 records).\<close>

definition get_required_fields :: "validator \<Rightarrow> string list" where
  "get_required_fields v =
     (let base_fields = [''ts_event'', ''ts_recv'']
      in if str_contains ''ohlcv'' (schema v)
         then base_fields @ [''open'', ''high'', ''low'', ''close'', ''volume'']
         else if schema v = ''trades'' then base_fields @ [''price'', ''size'']
         else if str_contains ''mbp'' (schema v)
         then base_fields @ [''bid_px_00'', ''ask_px_00'', ''bid_sz_00'', ''ask_sz_00'']
         else base_fields)"

definition count_missing ::
  "string list \<Rightarrow> (string \<times> nat) list \<Rightarrow> market_record \<Rightarrow> (string \<times> nat) list" where
  "count_missing required_fields missing_fields r =
     foldl (\<lambda>missing field.
              if r field = None \<or> r field = Some VNone then incr_count field missing
              else missing)
       missing_fields required_fields"

definition check_completeness ::
  "validator \<Rightarrow> market_record list \<Rightarrow> check_result \<times> validator" where
  "check_completeness v data =
     (if data = [] then (CompletenessNote False ''No data'', v)
      else (let required_fields = get_required_fields v;
                missing_fields = foldl (count_missing required_fields) [] (take 100 data);
                new = map (\<lambda>(field, count). MissingField field count) missing_fields
            in (CompletenessResult (length missing_fields = 0) missing_fields,
                v\<lparr>issues := issues v @ new\<rparr>)))"

text \<open>\<^verbatim>\<open>validate\<close>: the returned report and the instance after the call.\<close>

definition validate ::
  "pylib \<Rightarrow> validator \<Rightarrow> market_record list \<Rightarrow> py_error + report \<times> validator" where
  "validate L v data =
     (if data = []
      then Inr (\<lparr>total_records = length data, valid = False, checks = [],
                 report_issues = None\<rparr>, v)
      else
        (case check_timestamp_gaps L v data of
           Inl e \<Rightarrow> Inl e
         | Inr (gaps, v1) \<Rightarrow>
        (case check_duplicates L v1 data of
           Inl e \<Rightarrow> Inl e
         | Inr (dups, v2) \<Rightarrow>
        (case check_price_range L v2 data of
           Inl e \<Rightarrow> Inl e
         | Inr (prices, v3) \<Rightarrow>
        (case check_record_count v3 data of (count, v4) \<Rightarrow>
        (case check_completeness v4 data of (completeness, v5) \<Rightarrow>
           (let all_checks =
                  [(''timestamp_gaps'', gaps), (''duplicates'', dups),
                   (''price_range'', prices), (''record_count'', count),
                   (''data_completeness'', completeness)]
            in Inr (\<lparr>total_records = length data,
                     valid = list_all (\<lambda>(name, check). check_valid check) all_checks,
                     checks = all_checks,
                     report_issues = Some (issues v5)\<rparr>, v5))))))))"

text \<open>
  \<^verbatim>\<open>print_report\<close>, which \<^verbatim>\<open>main\<close> calls on the report of \<^verbatim>\<open>validate\<close>: of its effects only
  the lookups in the report are modelled. The keys \<^verbatim>\<open>total_records\<close>, \<^verbatim>\<open>valid\<close> and \<^verbatim>\<open>checks\<close>
  are always there; \<^verbatim>\<open>report["issues"]\<close> raises a KeyError when the key is absent.
\<close>

definition print_report :: "report \<Rightarrow> py_error + unit" where
  "print_report rep =
     (case report_issues rep of
        None \<Rightarrow> Inl KeyError
      | Some found \<Rightarrow> Inr ())"


section \<open>A host for the concrete runs\<close>

text \<open>
  The concrete runs below need a concrete library. \<open>utc_host\<close> is a host whose local time
  zone is UTC: it renders an instant of the years 1 to 9999 as \<^verbatim>\<open>%Y-%m-%d %H:%M:%S\<close> (the
  year without padding, as the C library prints it) and fails outside. It is used on
  records without string values only, and accepts no string as a number.
\<close>

definition digit_char :: "int \<Rightarrow> char" where
  "digit_char n = ''0123456789'' ! nat n"

definition two_digits :: "int \<Rightarrow> string" where
  "two_digits n = [digit_char (n div 10), digit_char (n mod 10)]"

definition year_digits :: "int \<Rightarrow> string" where
  "year_digits y =
     (if y < 10 then [digit_char y]
      else if y < 100 then two_digits y
      else if y < 1000 then digit_char (y div 100) # two_digits (y mod 100)
      else two_digits (y div 100) @ two_digits (y mod 100))"

text \<open>The civil date (year, month, day) of a number of days since 1970-01-01.\<close>

definition civil_from_days :: "int \<Rightarrow> int \<times> int \<times> int" where
  "civil_from_days days =
     (let z = days + 719468;
          era = z div 146097;
          doe = z - era * 146097;
          yoe = (doe - doe div 1460 + doe div 36524 - doe div 146096) div 365;
          doy = doe - (365 * yoe + yoe div 4 - yoe div 100);
          mp = (5 * doy + 2) div 153;
          d = doy - (153 * mp + 2) div 5 + 1;
          m = (if mp < 10 then mp + 3 else mp - 9);
          y = yoe + era * 400 + (if m \<le> 2 then 1 else 0)
      in (y, m, d))"

definition round_half_even :: "real \<Rightarrow> int" where
  "round_half_even x =
     (let f = \<lfloor>x\<rfloor>; r = x - real_of_int f
      in if r < 1 / 2 then f
         else if 1 / 2 < r then f + 1
         else if even f then f else f + 1)"

definition strftime_utc :: "real \<Rightarrow> py_error + string" where
  "strftime_utc ts_seconds =
     (let us = round_half_even (ts_seconds * 1000000)
      in if min_datetime_us \<le> us \<and> us \<le> max_datetime_us
         then (let secs = us div 1000000;
                   sod = secs mod 86400
               in case civil_from_days (secs div 86400) of
                    (y, m, d) \<Rightarrow>
                      Inr (year_digits y @ ''-'' @ two_digits m @ ''-'' @ two_digits d @ '' ''
                           @ two_digits (sod div 3600) @ '':''
                           @ two_digits (sod mod 3600 div 60) @ '':''
                           @ two_digits (sod mod 60)))
         else Inl OutOfRangeError)"

definition utc_host :: pylib where
  "utc_host =
     \<lparr>int_of_str = (\<lambda>s. None), float_of_str = (\<lambda>s. None), strftime_local = strftime_utc\<rparr>"

text \<open>
  An instance for the schema \<^verbatim>\<open>trades\<close> with the default settings (60 minutes, 10 standard
  deviations) holding a given list of issues, and a trade record with all the fields the
  schema requires.
\<close>

definition trades_instance :: "issue list \<Rightarrow> validator" where
  "trades_instance found =
     \<lparr>schema = ''trades'', max_gap_seconds = 3600, price_outlier_std = 10, issues = found\<rparr>"

definition trade_record :: "int \<Rightarrow> int \<Rightarrow> market_record" where
  "trade_record ts price =
     [''ts_event'' \<mapsto> VInt ts, ''ts_recv'' \<mapsto> VInt ts, ''price'' \<mapsto> VInt price,
      ''size'' \<mapsto> VInt 1]"


section \<open>Notions used in the statements\<close>

text \<open>
  The ET hour that \<^verbatim>\<open>is_in_session\<close> computes for the timestamp of a record: the hour of
  \<^verbatim>\<open>dt_et\<close>, the instant after the division in doubles and the rounding to the microsecond
  (for a timestamp less than half a microsecond before a full hour it is the next hour);
  \<open>None\<close> when \<^verbatim>\<open>int(ts_ns)\<close> or the conversion to a \<^verbatim>\<open>datetime\<close> raises.
\<close>

definition computed_et_hour :: "pylib \<Rightarrow> market_record \<Rightarrow> int option" where
  "computed_et_hour L r =
     (case py_int L (record_timestamp r) of
        Inl e \<Rightarrow> None
      | Inr n \<Rightarrow> (case dt_et n of Inl e \<Rightarrow> None | Inr us \<Rightarrow> Some (hour_of us)))"

text \<open>
  The positions of the gaps in a sorted list of timestamps: the indices \<open>i\<close> whose
  successor is more than \<open>max_gap\<close> seconds after the timestamp at \<open>i\<close>, in nanoseconds.
\<close>

definition gap_positions :: "int \<Rightarrow> int list \<Rightarrow> nat list" where
  "gap_positions max_gap sorted_ts =
     filter (\<lambda>i. sorted_ts ! (i + 1) - sorted_ts ! i > max_gap * 1000000000)
       [0..<length sorted_ts - 1]"


section \<open>Session classification\<close>

lemma hour_of_range: "0 \<le> hour_of us \<and> hour_of us < 24"
  by (simp add: hour_of_def)

lemma hour_in_session_simps:
  "hour_in_session h ASIAN \<longleftrightarrow> 18 \<le> h \<or> h < 2"
  "hour_in_session h LONDON \<longleftrightarrow> 2 \<le> h \<and> h < 8"
  "hour_in_session h NY \<longleftrightarrow> 8 \<le> h \<and> h < 16"
  by (auto simp: hour_in_session_def)

lemma dt_et_run1: "dt_et 50400000000000 = Inr 32400000000"
  by code_simp

lemma dt_et_run2: "dt_et 75600000000000 = Inr 57600000000"
  by code_simp

text \<open>
  Claim C1, as the code has it. With inclusive start and exclusive end, the Asian session
  holds the ET hours from 18 and below 2, London the hours 2 to 7 and NY the hours 8 to 15;
  no hour of the day is in two sessions, and an hour is in a session under \<^verbatim>\<open>is_in_session\<close>
  unless it is 16 or 17, which are in none. For an hour that has a session,
  \<^verbatim>\<open>get_current_session\<close> returns the name of that session.
\<close>

theorem session_hours_classified:
  assumes "0 \<le> h" and "h < 24"
  shows "(hour_in_session h ASIAN \<longleftrightarrow> 18 \<le> h \<or> h < 2)
       \<and> (hour_in_session h LONDON \<longleftrightarrow> 2 \<le> h \<and> h < 8)
       \<and> (hour_in_session h NY \<longleftrightarrow> 8 \<le> h \<and> h < 16)
       \<and> \<not> (hour_in_session h ASIAN \<and> hour_in_session h LONDON)
       \<and> \<not> (hour_in_session h ASIAN \<and> hour_in_session h NY)
       \<and> \<not> (hour_in_session h LONDON \<and> hour_in_session h NY)
       \<and> ((\<exists>s. hour_in_session h s) \<longleftrightarrow> h \<noteq> 16 \<and> h \<noteq> 17)
       \<and> (\<forall>s dt_hour. (dt_hour - 5) mod 24 = h \<and> hour_in_session h s \<longrightarrow>
              get_current_session dt_hour = fst (session_value s))
       \<and> (\<forall>s ts us. dt_et ts = Inr us \<and> hour_of us = h \<longrightarrow>
              is_in_session ts s = Inr (hour_in_session h s))"
proof -
  have ex: "(\<exists>s. hour_in_session h s) \<longleftrightarrow> h \<noteq> 16 \<and> h \<noteq> 17"
  proof
    assume "\<exists>s. hour_in_session h s"
    then obtain s where "hour_in_session h s" ..
    then show "h \<noteq> 16 \<and> h \<noteq> 17"
      by (cases s) (auto simp: hour_in_session_simps)
  next
    assume "h \<noteq> 16 \<and> h \<noteq> 17"
    then have "hour_in_session h ASIAN \<or> hour_in_session h LONDON \<or> hour_in_session h NY"
      using assms by (auto simp: hour_in_session_simps)
    then show "\<exists>s. hour_in_session h s" by blast
  qed
  have name: "\<forall>s dt_hour. (dt_hour - 5) mod 24 = h \<and> hour_in_session h s \<longrightarrow>
              get_current_session dt_hour = fst (session_value s)"
  proof (intro allI impI)
    fix s dt_hour
    assume a: "(dt_hour - 5) mod 24 = h \<and> hour_in_session h s"
    then have "get_current_session dt_hour = session_of_et_hour h"
      by (simp add: get_current_session_def)
    moreover have "session_of_et_hour h = fst (session_value s)"
      using a by (cases s) (auto simp: session_of_et_hour_def hour_in_session_simps)
    ultimately show "get_current_session dt_hour = fst (session_value s)" by simp
  qed
  have ts: "\<forall>s ts us. dt_et ts = Inr us \<and> hour_of us = h \<longrightarrow>
              is_in_session ts s = Inr (hour_in_session h s)"
    by (auto simp: is_in_session_def)
  have disj: "\<not> (hour_in_session h ASIAN \<and> hour_in_session h LONDON)"
    "\<not> (hour_in_session h ASIAN \<and> hour_in_session h NY)"
    "\<not> (hour_in_session h LONDON \<and> hour_in_session h NY)"
    by (auto simp: hour_in_session_simps)
  show ?thesis
    by (intro conjI) (fact hour_in_session_simps disj ex name ts)+
qed

text \<open>The hour 9 ET (14:00 UTC on the first day of the epoch) is in the NY session only.\<close>

theorem session_hours_classified_witness:
  "hour_in_session 9 NY \<and> \<not> hour_in_session 9 ASIAN \<and> \<not> hour_in_session 9 LONDON
   \<and> get_current_session 14 = ''NY''
   \<and> is_in_session 50400000000000 NY = Inr True"
proof -
  note w = session_hours_classified [of 9, simplified]
  have s: "hour_in_session 9 NY \<and> \<not> hour_in_session 9 ASIAN \<and> \<not> hour_in_session 9 LONDON"
    using w by simp
  have h: "hour_of 32400000000 = 9" by (simp add: hour_of_def)
  have m: "(14 - 5) mod 24 = (9::int)" by simp
  have "get_current_session 14 = fst (session_value NY)"
    using w s m by blast
  moreover have "is_in_session 50400000000000 NY = Inr (hour_in_session 9 NY)"
    using w dt_et_run1 h by blast
  ultimately show ?thesis
    using s by simp
qed

text \<open>
  The hour 16 ET (21:00 UTC) is in none of the three sessions under \<^verbatim>\<open>is_in_session\<close>, while
  \<^verbatim>\<open>get_current_session\<close> names it NY: the sessions do not cover the day, and the two
  routines differ there.
\<close>

theorem post_market_hour_unclassified:
  "\<not> hour_in_session 16 ASIAN \<and> \<not> hour_in_session 16 LONDON \<and> \<not> hour_in_session 16 NY
   \<and> is_in_session 75600000000000 ASIAN = Inr False
   \<and> is_in_session 75600000000000 LONDON = Inr False
   \<and> is_in_session 75600000000000 NY = Inr False
   \<and> get_current_session 21 = ''NY''"
  by (simp add: hour_in_session_simps is_in_session_def dt_et_run2 hour_of_def
      get_current_session_def session_of_et_hour_def)


section \<open>Filtering by the full set of sessions\<close>

lemma in_any_session_full:
  assumes "py_int L ts = Inr n" and "dt_et n = Inr us"
  shows "in_any_session L ts [ASIAN, LONDON, NY] = Inr (hour_of us \<noteq> 16 \<and> hour_of us \<noteq> 17)"
  using assms hour_of_range [of us]
  by (auto simp: is_in_session_def hour_in_session_simps)

lemma lookup_sessions_full:
  "lookup_sessions [''Asian'', ''London'', ''NY''] = Inr [ASIAN, LONDON, NY]"
  by (simp add: sessions_def)

lemma session_filter_loop_full:
  assumes "\<forall>r\<in>set data. truthy (record_timestamp r) \<longrightarrow> computed_et_hour L r \<noteq> None"
  shows "session_filter_loop L [ASIAN, LONDON, NY] data =
         Inr (filter (\<lambda>r. truthy (record_timestamp r)
                          \<and> computed_et_hour L r \<noteq> Some 16
                          \<and> computed_et_hour L r \<noteq> Some 17) data)"
  using assms
proof (induction data)
  case Nil
  show ?case by simp
next
  case (Cons r rs)
  then have IH: "session_filter_loop L [ASIAN, LONDON, NY] rs =
         Inr (filter (\<lambda>r. truthy (record_timestamp r)
                          \<and> computed_et_hour L r \<noteq> Some 16
                          \<and> computed_et_hour L r \<noteq> Some 17) rs)"
    by simp
  show ?case
  proof (cases "truthy (record_timestamp r)")
    case False
    then show ?thesis using IH by simp
  next
    case True
    with Cons.prems have "computed_et_hour L r \<noteq> None" by simp
    then obtain n us where n: "py_int L (record_timestamp r) = Inr n"
      and us: "dt_et n = Inr us"
      by (auto simp: computed_et_hour_def split: sum.splits)
    have h: "computed_et_hour L r = Some (hour_of us)"
      using n us by (simp add: computed_et_hour_def)
    have "in_any_session L (record_timestamp r) [ASIAN, LONDON, NY] =
          Inr (hour_of us \<noteq> 16 \<and> hour_of us \<noteq> 17)"
      using n us by (rule in_any_session_full)
    then show ?thesis
      using True IH h by (simp del: in_any_session.simps)
  qed
qed

text \<open>
  Claim C3, as the code has it. For a non-empty list of records whose usable timestamps
  convert to an instant, filtering by the three sessions returns, in the order of the
  input, the records that have a usable timestamp and whose ET hour, as \<^verbatim>\<open>is_in_session\<close>
  computes it, is neither 16 nor 17.
\<close>

theorem filter_full_session_set:
  assumes "data \<noteq> []"
    and "\<forall>r\<in>set data. truthy (record_timestamp r) \<longrightarrow> computed_et_hour L r \<noteq> None"
  shows "filter_by_session L data [''Asian'', ''London'', ''NY''] =
         Inr (filter (\<lambda>r. truthy (record_timestamp r)
                          \<and> computed_et_hour L r \<noteq> Some 16
                          \<and> computed_et_hour L r \<noteq> Some 17) data)"
  using assms(1) session_filter_loop_full [OF assms(2)]
  by (simp add: filter_by_session_def lookup_sessions_full del: lookup_sessions.simps)

lemma record_timestamp_run1:
  "record_timestamp [''ts_event'' \<mapsto> VInt 50400000000000] = VInt 50400000000000"
  by (simp add: record_timestamp_def dict_get_def py_or_def)

lemma record_timestamp_run2:
  "record_timestamp [''ts_event'' \<mapsto> VInt 75600000000000] = VInt 75600000000000"
  by (simp add: record_timestamp_def dict_get_def py_or_def)

lemma record_timestamp_run3: "record_timestamp [''close'' \<mapsto> VInt 5] = VNone"
  by (simp add: record_timestamp_def dict_get_def py_or_def)

lemma record_timestamp_run4:
  "record_timestamp [''ts_event'' \<mapsto> VInt 1699995599999999499] = VInt 1699995599999999499"
  by (simp add: record_timestamp_def dict_get_def py_or_def)

lemma dt_et_run6: "dt_et 1699995599999999499 = Inr 1699977600000000"
  by code_simp

text \<open>
  Four records: one at 9:00 ET, one at 16:00 ET, one without a timestamp, and one 501
  nanoseconds before 16:00 ET (2023-11-14 20:59:59.999999499 UTC), whose double of seconds
  is 1699995600.0, so that its computed hour is 16. The first one alone is kept.
\<close>

theorem filter_full_session_set_witness:
  "filter_by_session utc_host
     [[''ts_event'' \<mapsto> VInt 50400000000000], [''ts_event'' \<mapsto> VInt 75600000000000],
      [''close'' \<mapsto> VInt 5], [''ts_event'' \<mapsto> VInt 1699995599999999499]]
     [''Asian'', ''London'', ''NY''] =
   Inr [[''ts_event'' \<mapsto> VInt 50400000000000]]"
proof -
  have h1: "computed_et_hour utc_host [''ts_event'' \<mapsto> VInt 50400000000000] = Some 9"
    by (simp add: computed_et_hour_def record_timestamp_run1 dt_et_run1 hour_of_def)
  have h2: "computed_et_hour utc_host [''ts_event'' \<mapsto> VInt 75600000000000] = Some 16"
    by (simp add: computed_et_hour_def record_timestamp_run2 dt_et_run2 hour_of_def)
  have h4: "computed_et_hour utc_host [''ts_event'' \<mapsto> VInt 1699995599999999499] = Some 16"
    by (simp add: computed_et_hour_def record_timestamp_run4 dt_et_run6 hour_of_def)
  show ?thesis
    using filter_full_session_set [of
        "[[''ts_event'' \<mapsto> VInt 50400000000000], [''ts_event'' \<mapsto> VInt 75600000000000],
          [''close'' \<mapsto> VInt 5], [''ts_event'' \<mapsto> VInt 1699995599999999499]]" utc_host]
    by (simp add: h1 h2 h4 record_timestamp_run1 record_timestamp_run2 record_timestamp_run3
        record_timestamp_run4)
qed

text \<open>
  A record with a usable timestamp at 16:00 ET (21:00 UTC) is dropped by the filter on the
  three sessions.
\<close>

theorem post_market_record_dropped:
  "truthy (record_timestamp [''ts_event'' \<mapsto> VInt 75600000000000])
   \<and> filter_by_session utc_host [[''ts_event'' \<mapsto> VInt 75600000000000]]
       [''Asian'', ''London'', ''NY''] = Inr []"
  by (simp add: filter_by_session_def sessions_def record_timestamp_run2 is_in_session_def
      dt_et_run2 hour_of_def hour_in_session_simps)

subsection \<open>The empty list of records\<close>

lemma lookup_sessions_valid:
  "set names \<subseteq> {''Asian'', ''London'', ''NY''} \<Longrightarrow> \<exists>enums. lookup_sessions names = Inr enums"
proof (induction names)
  case Nil
  show ?case by simp
next
  case (Cons a names)
  then obtain enums where "lookup_sessions names = Inr enums" by auto
  moreover from Cons.prems have "a = ''Asian'' \<or> a = ''London'' \<or> a = ''NY''" by simp
  then have "\<exists>e. sessions a = Some e" by (auto simp: sessions_def)
  ultimately show ?case by auto
qed

text \<open>
  Claim C10. For every list of valid session names, \<^verbatim>\<open>filter_by_session\<close> on the empty
  list of records raises ZeroDivisionError, from the share it prints before returning.
\<close>

theorem filter_by_session_empty_raises:
  assumes "set names \<subseteq> {''Asian'', ''London'', ''NY''}"
  shows "filter_by_session L [] names = Inl ZeroDivisionError"
proof -
  obtain enums where "lookup_sessions names = Inr enums"
    using lookup_sessions_valid [OF assms] by blast
  then show ?thesis by (simp add: filter_by_session_def)
qed

text \<open>The names NY and Asian with no record.\<close>

theorem filter_by_session_empty_raises_witness:
  "filter_by_session utc_host [] [''NY'', ''Asian''] = Inl ZeroDivisionError"
  using filter_by_session_empty_raises [of "[''NY'', ''Asian'']" utc_host] by simp


section \<open>A timestamp of zero\<close>

lemma zero_timestamp_falsy:
  assumes "\<forall>k\<in>{''ts_event'', ''ts_recv'', ''timestamp''}. r k = None \<or> r k = Some (VInt 0)"
  shows "\<not> truthy (record_timestamp r)"
proof -
  have "\<not> truthy (dict_get r ''ts_event'')" "\<not> truthy (dict_get r ''ts_recv'')"
    "\<not> truthy (dict_get r ''timestamp'')"
    using assms by (auto simp: dict_get_def)
  then show ?thesis by (simp add: record_timestamp_def py_or_def)
qed

lemma extract_timestamps_skip:
  "\<not> truthy (record_timestamp r) \<Longrightarrow>
   extract_timestamps L (xs @ r # ys) = extract_timestamps L (xs @ ys)"
  by (induction xs) (simp_all add: Let_def cong: if_cong sum.case_cong)

lemma session_filter_loop_skip:
  "\<not> truthy (record_timestamp r) \<Longrightarrow>
   session_filter_loop L enums (xs @ r # ys) = session_filter_loop L enums (xs @ ys)"
  by (induction xs) (simp_all add: Let_def cong: if_cong sum.case_cong)

text \<open>
  Claim C9. A record whose timestamp fields are each absent or 0 adds nothing to the
  extracted timestamps and is dropped by the session filter, and \<^verbatim>\<open>filter_by_session\<close>
  gives the same result as on the record without its timestamp fields; a \<^verbatim>\<open>ts_event\<close> of 0
  falls through to \<^verbatim>\<open>ts_recv\<close> and \<^verbatim>\<open>timestamp\<close> as an absent one does.
\<close>

theorem zero_timestamp_is_missing:
  assumes "\<forall>k\<in>{''ts_event'', ''ts_recv'', ''timestamp''}. r k = None \<or> r k = Some (VInt 0)"
  shows "extract_timestamps L (xs @ r # ys) = extract_timestamps L (xs @ ys)
       \<and> session_filter_loop L enums (xs @ r # ys) = session_filter_loop L enums (xs @ ys)
       \<and> filter_by_session L (xs @ r # ys) names =
           filter_by_session L
             (xs @ r(''ts_event'' := None, ''ts_recv'' := None, ''timestamp'' := None) # ys) names
       \<and> (\<forall>r0. record_timestamp (r0(''ts_event'' \<mapsto> VInt 0)) =
                 record_timestamp (r0(''ts_event'' := None)))"
proof -
  let ?r' = "r(''ts_event'' := None, ''ts_recv'' := None, ''timestamp'' := None)"
  have f: "\<not> truthy (record_timestamp r)"
    using assms by (rule zero_timestamp_falsy)
  have f': "\<not> truthy (record_timestamp ?r')"
    by (rule zero_timestamp_falsy) simp
  have "session_filter_loop L e (xs @ r # ys) = session_filter_loop L e (xs @ ?r' # ys)" for e
    using f f' by (simp add: session_filter_loop_skip)
  then have "filter_by_session L (xs @ r # ys) names = filter_by_session L (xs @ ?r' # ys) names"
    by (simp add: filter_by_session_def cong: sum.case_cong)
  moreover have "\<forall>r0. record_timestamp (r0(''ts_event'' \<mapsto> VInt 0)) =
                 record_timestamp (r0(''ts_event'' := None))"
    by (simp add: record_timestamp_def dict_get_def py_or_def)
  ultimately show ?thesis
    using f by (simp add: extract_timestamps_skip session_filter_loop_skip)
qed

text \<open>
  A record at 9:00 ET followed by a record whose \<^verbatim>\<open>ts_event\<close> is 0: the second one adds no
  timestamp and is not kept; with a \<^verbatim>\<open>ts_recv\<close> of 7 beside it, a \<^verbatim>\<open>ts_event\<close> of 0 gives the
  timestamp 7.
\<close>

theorem zero_timestamp_is_missing_witness:
  "extract_timestamps utc_host
     [[''ts_event'' \<mapsto> VInt 50400000000000], [''ts_event'' \<mapsto> VInt 0, ''close'' \<mapsto> VInt 5]]
   = Inr [50400000000000]
   \<and> session_filter_loop utc_host [NY]
       [[''ts_event'' \<mapsto> VInt 50400000000000], [''ts_event'' \<mapsto> VInt 0, ''close'' \<mapsto> VInt 5]]
     = Inr [[''ts_event'' \<mapsto> VInt 50400000000000]]
   \<and> record_timestamp [''ts_recv'' \<mapsto> VInt 7, ''ts_event'' \<mapsto> VInt 0] = VInt 7"
proof -
  let ?r9 = "[''ts_event'' \<mapsto> VInt 50400000000000] :: market_record"
  let ?r0 = "[''ts_event'' \<mapsto> VInt 0, ''close'' \<mapsto> VInt 5] :: market_record"
  have a: "\<forall>k\<in>{''ts_event'', ''ts_recv'', ''timestamp''}. ?r0 k = None \<or> ?r0 k = Some (VInt 0)"
    by simp
  note w = zero_timestamp_is_missing [OF a, of utc_host "[?r9]" "[]" "[NY]"]
  have "extract_timestamps utc_host ([?r9] @ ?r0 # []) = extract_timestamps utc_host ([?r9] @ [])"
    using w by (rule conjunct1)
  then have w1: "extract_timestamps utc_host [?r9, ?r0] = extract_timestamps utc_host [?r9]"
    by (simp only: append_Cons append_Nil)
  have "session_filter_loop utc_host [NY] ([?r9] @ ?r0 # []) =
        session_filter_loop utc_host [NY] ([?r9] @ [])"
    using w by (rule conjunct1 [OF conjunct2])
  then have w2: "session_filter_loop utc_host [NY] [?r9, ?r0] =
                 session_filter_loop utc_host [NY] [?r9]"
    by (simp only: append_Cons append_Nil)
  have "\<forall>r0. record_timestamp (r0(''ts_event'' \<mapsto> VInt 0)) =
             record_timestamp (r0(''ts_event'' := None))"
    using w by (rule conjunct2 [OF conjunct2 [OF conjunct2]])
  then have "record_timestamp [''ts_recv'' \<mapsto> VInt 7, ''ts_event'' \<mapsto> VInt 0] =
             record_timestamp ([''ts_recv'' \<mapsto> VInt 7](''ts_event'' := None))"
    by (rule spec)
  also have "\<dots> = VInt 7"
    by (simp add: record_timestamp_def dict_get_def py_or_def)
  finally have w3: "record_timestamp [''ts_recv'' \<mapsto> VInt 7, ''ts_event'' \<mapsto> VInt 0] = VInt 7" .
  have e: "extract_timestamps utc_host [?r9] = Inr [50400000000000]"
    by (simp add: record_timestamp_run1)
  have s: "session_filter_loop utc_host [NY] [?r9] = Inr [?r9]"
    by (simp add: record_timestamp_run1 is_in_session_def dt_et_run1 hour_of_def
        hour_in_session_simps)
  show ?thesis
    by (simp only: w1 w2 w3 e s)
qed


section \<open>Session transitions\<close>

lemma dt_et_run3: "dt_et 46800000000000 = Inr 28800000000"
  by code_simp

lemma dt_et_run4: "dt_et 48660000000000 = Inr 30660000000"
  by code_simp

lemma dt_et_run5: "dt_et 50460000000000 = Inr 32460000000"
  by code_simp

lemma timedelta_minutes_60: "timedelta_minutes 60 = Inr 3600000000"
  by (simp add: timedelta_minutes_def)

lemma near_transition_run3: "near_transition 28800000000 3600000000 transitions"
  by (simp add: transitions_def replace_hour_def total_seconds_def)

lemma near_transition_run4: "near_transition 30660000000 3600000000 transitions"
  by (simp add: transitions_def replace_hour_def total_seconds_def)

lemma near_transition_run5: "\<not> near_transition 32460000000 3600000000 transitions"
  by (simp add: transitions_def replace_hour_def total_seconds_def)

text \<open>
  Claim C4, at its concrete input. With 30 minutes before and 30 minutes after, the window
  is \<^verbatim>\<open>timedelta(minutes=60)\<close> on either side of a transition: of three records at 8:00,
  8:31 and 9:01 ET (13:00, 13:31 and 14:01 UTC), the filter keeps the first two, the record
  at 8:31 included.
\<close>

theorem transitions_keep_8_31:
  "filter_session_transitions L
     [[''ts_event'' \<mapsto> VInt 46800000000000], [''ts_event'' \<mapsto> VInt 48660000000000],
      [''ts_event'' \<mapsto> VInt 50460000000000]] 30 30 =
   Inr [[''ts_event'' \<mapsto> VInt 46800000000000], [''ts_event'' \<mapsto> VInt 48660000000000]]"
  by (simp add: filter_session_transitions_def timedelta_minutes_60 record_timestamp_def
      dict_get_def py_or_def dt_et_run3 dt_et_run4 dt_et_run5 near_transition_run3
      near_transition_run4 near_transition_run5 del: near_transition.simps)



section \<open>The report of the empty input\<close>

text \<open>
  Claim C5, at the empty input. \<^verbatim>\<open>validate\<close> returns a report with no record, not valid
  and with no check, and leaves the instance as it is; the report has no key \<^verbatim>\<open>issues\<close>, and
  \<^verbatim>\<open>print_report\<close> raises a KeyError on it.
\<close>

theorem validate_empty_has_no_issues_key:
  "validate L v [] =
     Inr (\<lparr>total_records = 0, valid = False, checks = [], report_issues = None\<rparr>, v)
   \<and> print_report \<lparr>total_records = 0, valid = False, checks = [], report_issues = None\<rparr>
       = Inl KeyError"
  by (simp add: validate_def print_report_def)



section \<open>The record count\<close>

text \<open>
  Claim C8. For every instance (every schema) and every list of records, the estimate of the
  expected count is \<^verbatim>\<open>None\<close>, and \<^verbatim>\<open>check_record_count\<close> returns a valid result and leaves
  the list of issues as it is.
\<close>

theorem record_count_always_valid:
  "estimate_expected_count v data = None
   \<and> check_record_count v data =
       (CountResult True (length data) None
          ''Expected count is estimated based on schema and date range'', v)"
  by (simp add: estimate_expected_count_def check_record_count_def)


section \<open>The gap check\<close>

lemma gap_seconds_exceeds:
  "(real_of_int g / 1000000000 > real_of_int m) \<longleftrightarrow> g > m * 1000000000"
proof -
  have "(real_of_int m < real_of_int g / 1000000000)
        \<longleftrightarrow> real_of_int (m * 1000000000) < real_of_int g"
    by (simp add: pos_less_divide_eq)
  also have "\<dots> \<longleftrightarrow> m * 1000000000 < g"
    by (rule of_int_less_iff)
  finally show ?thesis .
qed

lemma gap_positions_step:
  "gap_positions m (a # b # rest) =
     (if b - a > m * 1000000000 then [0] else []) @ map Suc (gap_positions m (b # rest))"
proof -
  have "[0..<length (a # b # rest) - 1] = 0 # map Suc [0..<length (b # rest) - 1]"
    by (simp add: upt_conv_Cons map_Suc_upt del: upt_Suc)
  then show ?thesis
    by (simp add: gap_positions_def filter_map comp_def del: upt_Suc)
qed

lemma gap_loop_index:
  "gap_loop L m i xs = Inr gaps \<Longrightarrow> map index gaps = map (\<lambda>j. i + j) (gap_positions m xs)"
proof (induction L m i xs arbitrary: gaps rule: gap_loop.induct)
  case (1 L m i a b rest)
  show ?case
  proof (cases "b - a > m * 1000000000")
    case True
    then have c: "real_of_int (b - a) / 1000000000 > real_of_int m"
      using gap_seconds_exceeds [of m "b - a"] by blast
    from "1.prems" c obtain bt aft gs where
      g: "gap_loop L m (i + 1) (b # rest) = Inr gs"
      and fa: "format_timestamp L a = Inr bt" and fb: "format_timestamp L b = Inr aft"
      and gaps: "gaps = \<lparr>index = i, gap_seconds = real_of_int (b - a) / 1000000000,
                   gap_minutes = real_of_int (b - a) / 1000000000 / 60,
                   before = bt, after = aft\<rparr> # gs"
      by (auto simp: Let_def split: sum.splits)
    have "map index gs = map (\<lambda>j. i + 1 + j) (gap_positions m (b # rest))"
      using "1.IH"(1) [OF refl refl c fa fb g] .
    then show ?thesis
      using True gaps by (simp add: gap_positions_step comp_def)
  next
    case False
    then have c: "\<not> real_of_int (b - a) / 1000000000 > real_of_int m"
      using gap_seconds_exceeds [of m "b - a"] by blast
    with "1.prems" have g: "gap_loop L m (i + 1) (b # rest) = Inr gaps"
      by (simp add: Let_def)
    have "map index gaps = map (\<lambda>j. i + 1 + j) (gap_positions m (b # rest))"
      using "1.IH"(2) [OF refl refl c g] .
    then show ?thesis
      using False by (simp add: gap_positions_step comp_def)
  qed
qed (simp_all add: gap_positions_def)

lemma gap_loop_total:
  "\<forall>t\<in>set xs. \<exists>s. format_timestamp L t = Inr s \<Longrightarrow> \<exists>gaps. gap_loop L m i xs = Inr gaps"
proof (induction L m i xs rule: gap_loop.induct)
  case (1 L m i a b rest)
  obtain sa sb where sa: "format_timestamp L a = Inr sa" and sb: "format_timestamp L b = Inr sb"
    using "1.prems" by auto
  have rest: "\<forall>t\<in>set (b # rest). \<exists>s. format_timestamp L t = Inr s"
    using "1.prems" by simp
  show ?case
  proof (cases "real_of_int (b - a) / 1000000000 > real_of_int m")
    case True
    obtain gs where "gap_loop L m (i + 1) (b # rest) = Inr gs"
      using "1.IH"(1) [OF refl refl True sa sb rest] by blast
    then show ?thesis using True sa sb by (simp add: Let_def)
  next
    case False
    obtain gs where "gap_loop L m (i + 1) (b # rest) = Inr gs"
      using "1.IH"(2) [OF refl refl False rest] by blast
    then show ?thesis using False by (simp add: Let_def)
  qed
qed simp_all

text \<open>
  Claim C7. With fewer than two extracted timestamps the check is valid, with no gap and a
  note. With two or more (and timestamps that the host can render), the check returns; its
  gaps are at the positions of the sorted timestamps where the difference to the next one
  is strictly greater than \<^verbatim>\<open>max_gap_seconds\<close>, so a difference of exactly that many seconds is
  no gap; it is valid iff there is no gap, and it appends one issue of severity warning for
  each gap.
\<close>

theorem gap_check_strict_boundary:
  assumes "extract_timestamps L data = Inr ts"
  shows "(length ts < 2 \<longrightarrow>
            check_timestamp_gaps L v data =
              Inr (GapNote True [] ''Insufficient data for gap detection'', v))
       \<and> (2 \<le> length ts \<and> (\<forall>t\<in>set ts. \<exists>s. format_timestamp L t = Inr s) \<longrightarrow>
            (\<exists>gaps. check_timestamp_gaps L v data =
                      Inr (GapResult (gaps = []) (length gaps) (take 10 gaps) (length gaps),
                           v\<lparr>issues := issues v @ map TimestampGap gaps\<rparr>)
                  \<and> map index gaps = gap_positions (max_gap_seconds v) (sort ts)
                  \<and> (\<forall>g\<in>set gaps. severity (TimestampGap g) = ''warning'')))"
proof (intro conjI impI)
  assume "length ts < 2"
  then show "check_timestamp_gaps L v data =
               Inr (GapNote True [] ''Insufficient data for gap detection'', v)"
    using assms by (simp add: check_timestamp_gaps_def)
next
  assume a: "2 \<le> length ts \<and> (\<forall>t\<in>set ts. \<exists>s. format_timestamp L t = Inr s)"
  then have "\<forall>t\<in>set (sort ts). \<exists>s. format_timestamp L t = Inr s" by simp
  then obtain gaps where g: "gap_loop L (max_gap_seconds v) 0 (sort ts) = Inr gaps"
    using gap_loop_total by blast
  have "map index gaps = map (\<lambda>j. 0 + j) (gap_positions (max_gap_seconds v) (sort ts))"
    using g by (rule gap_loop_index)
  then have p: "map index gaps = gap_positions (max_gap_seconds v) (sort ts)" by simp
  have c: "check_timestamp_gaps L v data =
             Inr (GapResult (gaps = []) (length gaps) (take 10 gaps) (length gaps),
                  v\<lparr>issues := issues v @ map TimestampGap gaps\<rparr>)"
    using assms a g by (simp add: check_timestamp_gaps_def)
  show "\<exists>gaps. check_timestamp_gaps L v data =
                  Inr (GapResult (gaps = []) (length gaps) (take 10 gaps) (length gaps),
                       v\<lparr>issues := issues v @ map TimestampGap gaps\<rparr>)
              \<and> map index gaps = gap_positions (max_gap_seconds v) (sort ts)
              \<and> (\<forall>g\<in>set gaps. severity (TimestampGap g) = ''warning'')"
    using c p by (intro exI [of _ gaps]) simp
qed

text \<open>
  With 60 minutes as the largest gap: two timestamps 60 minutes apart give no gap, two
  timestamps 61 minutes apart give one gap and one issue, and one timestamp alone gives the
  note.
\<close>

lemma format_timestamp_run1: "format_timestamp utc_host 3600000000000 = Inr ''1970-01-01 01:00:00''"
  unfolding format_timestamp_def utc_host_def strftime_utc_def round_half_even_def
    min_datetime_us_def max_datetime_us_def civil_from_days_def Let_def two_digits_def
    year_digits_def digit_char_def
  by simp

lemma format_timestamp_run2: "format_timestamp utc_host 7200000000000 = Inr ''1970-01-01 02:00:00''"
  unfolding format_timestamp_def utc_host_def strftime_utc_def round_half_even_def
    min_datetime_us_def max_datetime_us_def civil_from_days_def Let_def two_digits_def
    year_digits_def digit_char_def
  by simp

lemma format_timestamp_run3: "format_timestamp utc_host 7260000000000 = Inr ''1970-01-01 02:01:00''"
  unfolding format_timestamp_def utc_host_def strftime_utc_def round_half_even_def
    min_datetime_us_def max_datetime_us_def civil_from_days_def Let_def two_digits_def
    year_digits_def digit_char_def
  by simp

lemma extract_timestamps_run60:
  "extract_timestamps utc_host
     [[''ts_event'' \<mapsto> VInt 7200000000000], [''ts_event'' \<mapsto> VInt 3600000000000]]
   = Inr [7200000000000, 3600000000000]"
  by (simp add: record_timestamp_def dict_get_def py_or_def)

lemma extract_timestamps_run61:
  "extract_timestamps utc_host
     [[''ts_event'' \<mapsto> VInt 3600000000000], [''ts_event'' \<mapsto> VInt 7260000000000]]
   = Inr [3600000000000, 7260000000000]"
  by (simp add: record_timestamp_def dict_get_def py_or_def)

theorem gap_check_strict_boundary_witness:
  "check_timestamp_gaps utc_host (DataValidator_init ''ohlcv-1h'' 60 10)
     [[''ts_event'' \<mapsto> VInt 7200000000000], [''ts_event'' \<mapsto> VInt 3600000000000]]
   = Inr (GapResult True 0 [] 0, DataValidator_init ''ohlcv-1h'' 60 10)
   \<and> check_timestamp_gaps utc_host (DataValidator_init ''ohlcv-1h'' 60 10)
       [[''ts_event'' \<mapsto> VInt 3600000000000], [''ts_event'' \<mapsto> VInt 7260000000000]]
     = Inr (GapResult False 1
              [\<lparr>index = 0, gap_seconds = 3660, gap_minutes = 61,
                before = ''1970-01-01 01:00:00'', after = ''1970-01-01 02:01:00''\<rparr>] 1,
            (DataValidator_init ''ohlcv-1h'' 60 10)
              \<lparr>issues := [TimestampGap
                 \<lparr>index = 0, gap_seconds = 3660, gap_minutes = 61,
                  before = ''1970-01-01 01:00:00'', after = ''1970-01-01 02:01:00''\<rparr>]\<rparr>)
   \<and> extract_timestamps utc_host [[''ts_event'' \<mapsto> VInt 3600000000000]] = Inr [3600000000000]
   \<and> check_timestamp_gaps utc_host (DataValidator_init ''ohlcv-1h'' 60 10)
       [[''ts_event'' \<mapsto> VInt 3600000000000]]
     = Inr (GapNote True [] ''Insufficient data for gap detection'',
            DataValidator_init ''ohlcv-1h'' 60 10)"
proof -
  let ?v = "DataValidator_init ''ohlcv-1h'' 60 10"
  have m: "max_gap_seconds ?v = 3600" and i: "issues ?v = []"
    by (simp_all add: DataValidator_init_def)
  have f: "\<forall>t\<in>set [7200000000000, 3600000000000]. \<exists>s. format_timestamp utc_host t = Inr s"
    by (simp add: format_timestamp_run1 format_timestamp_run2)
  have p60: "gap_positions 3600 (sort [7200000000000, 3600000000000]) = []"
    by (simp add: gap_positions_def)
  obtain gaps where
    c: "check_timestamp_gaps utc_host ?v
          [[''ts_event'' \<mapsto> VInt 7200000000000], [''ts_event'' \<mapsto> VInt 3600000000000]]
        = Inr (GapResult (gaps = []) (length gaps) (take 10 gaps) (length gaps),
               ?v\<lparr>issues := issues ?v @ map TimestampGap gaps\<rparr>)"
    and "map index gaps = gap_positions (max_gap_seconds ?v) (sort [7200000000000, 3600000000000])"
    using gap_check_strict_boundary [OF extract_timestamps_run60, of ?v] f by auto
  then have "gaps = []" by (simp only: m p60 map_is_Nil_conv)
  with c have w60: "check_timestamp_gaps utc_host ?v
          [[''ts_event'' \<mapsto> VInt 7200000000000], [''ts_event'' \<mapsto> VInt 3600000000000]]
        = Inr (GapResult True 0 [] 0, ?v)"
    by (simp add: DataValidator_init_def)
  have e1: "extract_timestamps utc_host [[''ts_event'' \<mapsto> VInt 3600000000000]]
            = Inr [3600000000000]"
    by (simp add: record_timestamp_def dict_get_def py_or_def)
  have w1: "check_timestamp_gaps utc_host ?v [[''ts_event'' \<mapsto> VInt 3600000000000]]
            = Inr (GapNote True [] ''Insufficient data for gap detection'', ?v)"
    using gap_check_strict_boundary [OF e1, of ?v] by simp
  have w61: "check_timestamp_gaps utc_host ?v
       [[''ts_event'' \<mapsto> VInt 3600000000000], [''ts_event'' \<mapsto> VInt 7260000000000]]
     = Inr (GapResult False 1
              [\<lparr>index = 0, gap_seconds = 3660, gap_minutes = 61,
                before = ''1970-01-01 01:00:00'', after = ''1970-01-01 02:01:00''\<rparr>] 1,
            ?v\<lparr>issues := [TimestampGap
                 \<lparr>index = 0, gap_seconds = 3660, gap_minutes = 61,
                  before = ''1970-01-01 01:00:00'', after = ''1970-01-01 02:01:00''\<rparr>]\<rparr>)"
    by (simp add: check_timestamp_gaps_def extract_timestamps_run61 m i
        format_timestamp_run1 format_timestamp_run3 del: extract_timestamps.simps)
  show ?thesis
    using w60 w61 e1 w1 by simp
qed


section \<open>The price range check\<close>

lemma outlier_loop_types:
  "outlier_loop thr m sd ps outs new = (outs', new') \<Longrightarrow>
   \<forall>i\<in>set new. issue_type i = ''price_outlier'' \<Longrightarrow>
   \<forall>i\<in>set new'. issue_type i = ''price_outlier''"
proof (induction ps arbitrary: outs new)
  case Nil
  then show ?case by simp
next
  case (Cons p ps)
  show ?case
  proof (cases "\<bar>p - m\<bar> > thr * sd")
    case True
    let ?new = "if length (outs @ [p]) \<le> 10 then new @ [PriceOutlier p m sd] else new"
    have "outlier_loop thr m sd ps (outs @ [p]) ?new = (outs', new')"
      using Cons.prems(1) True by (simp add: Let_def)
    moreover have "\<forall>i\<in>set ?new. issue_type i = ''price_outlier''"
      using Cons.prems(2) by simp
    ultimately show ?thesis by (rule Cons.IH)
  next
    case False
    then have "outlier_loop thr m sd ps outs new = (outs', new')"
      using Cons.prems(1) by simp
    then show ?thesis using Cons.prems(2) by (rule Cons.IH)
  qed
qed

lemma price_statistics_values:
  "\<exists>outliers new.
     price_statistics thr prices =
       (sum_list prices / real (length prices),
        sqrt (sum_list (map (\<lambda>p. (p - sum_list prices / real (length prices)) ^ 2) prices)
              / real (length prices)),
        outliers, new)
     \<and> (\<forall>i\<in>set new. issue_type i = ''price_outlier'')"
proof -
  let ?m = "sum_list prices / real (length prices)"
  let ?sd = "sqrt (sum_list (map (\<lambda>p. (p - ?m) ^ 2) prices) / real (length prices))"
  obtain outliers new where o: "outlier_loop thr ?m ?sd prices [] [] = (outliers, new)"
    by (cases "outlier_loop thr ?m ?sd prices [] []") blast
  then have "\<forall>i\<in>set new. issue_type i = ''price_outlier''"
    by (rule outlier_loop_types) simp
  moreover have "price_statistics thr prices = (?m, ?sd, outliers, new)"
    using o by (simp add: price_statistics_def Let_def)
  ultimately show ?thesis by blast
qed

lemma filter_negative_issues:
  assumes "\<forall>i\<in>set new. issue_type i = ''price_outlier''"
  shows "filter (\<lambda>i. issue_type i = ''negative_price'') (new @ map NegativePrice ps)
         = map NegativePrice ps"
proof -
  have "filter (\<lambda>i. issue_type i = ''negative_price'') new = []"
    using assms by (auto simp: filter_empty_conv)
  moreover have "filter (\<lambda>i. issue_type i = ''negative_price'') (map NegativePrice ps)
                 = map NegativePrice ps"
    by (induction ps) simp_all
  ultimately show ?thesis by simp
qed

lemma no_negative_no_zero:
  "(filter (\<lambda>p. p < 0) prices = [] \<and> filter (\<lambda>p. p = 0) prices = [])
   \<longleftrightarrow> \<not> (\<exists>p\<in>set prices. p < 0) \<and> \<not> (\<exists>p\<in>set prices. p = (0::real))"
  by (auto simp: filter_empty_conv)

lemma check_price_range_cons:
  assumes "extract_prices L data = Inr (p0 # rest)"
    and "(if length (p0 # rest) > 1 then price_statistics (price_outlier_std v) (p0 # rest)
          else (p0, 0, [], [])) = (m, sd, outliers, new)"
  shows "check_price_range L v data =
         Inr (PriceResult (filter (\<lambda>p. p < 0) (p0 # rest) = []
                           \<and> filter (\<lambda>p. p = 0) (p0 # rest) = [])
                (price_min p0 rest) (price_max p0 rest) m sd
                (length (filter (\<lambda>p. p < 0) (p0 # rest)))
                (length (filter (\<lambda>p. p = 0) (p0 # rest))) (length outliers),
              v\<lparr>issues := issues v @ new
                            @ map NegativePrice (take 10 (filter (\<lambda>p. p < 0) (p0 # rest)))\<rparr>)"
  unfolding check_price_range_def
  by (simp only: assms sum.case list.case Let_def prod.case length_0_conv)

text \<open>
  Claim C6. When the prices are extracted, the check returns; it is valid iff no extracted
  price is negative and none is zero, whatever the outliers; the mean is the sum of all the
  extracted prices over their number and the standard deviation is the root of the mean
  squared deviation over the same number (the negative prices included, the division by N);
  the issues it appends are outlier issues followed by one \<^verbatim>\<open>negative_price\<close> issue for each
  of the first ten negative prices.
\<close>

theorem price_range_check:
  assumes "extract_prices L data = Inr prices"
  shows "\<exists>res new.
           check_price_range L v data = Inr (res, v\<lparr>issues := issues v @ new\<rparr>)
         \<and> (check_valid res \<longleftrightarrow> \<not> (\<exists>p\<in>set prices. p < 0) \<and> \<not> (\<exists>p\<in>set prices. p = 0))
         \<and> filter (\<lambda>i. issue_type i = ''negative_price'') new
             = map NegativePrice (take 10 (filter (\<lambda>p. p < 0) prices))
         \<and> (\<forall>i\<in>set new. issue_type i = ''negative_price'' \<or> issue_type i = ''price_outlier'')
         \<and> (prices \<noteq> [] \<longrightarrow>
              (\<exists>lo hi n z k.
                 res = PriceResult (check_valid res) lo hi
                         (sum_list prices / real (length prices))
                         (sqrt (sum_list (map (\<lambda>p. (p - sum_list prices / real (length prices)) ^ 2)
                                            prices) / real (length prices)))
                         n z k))"
proof (cases prices)
  case Nil
  have "check_price_range L v data = Inr (PriceNote True ''No price data to validate'', v)"
    using assms Nil by (simp add: check_price_range_def)
  then have "check_price_range L v data =
             Inr (PriceNote True ''No price data to validate'', v\<lparr>issues := issues v @ []\<rparr>)"
    by simp
  then show ?thesis
    using Nil by (intro exI [of _ "PriceNote True ''No price data to validate''"] exI [of _ "[]"]) simp
next
  case (Cons p0 rest)
  let ?m = "sum_list prices / real (length prices)"
  let ?sd = "sqrt (sum_list (map (\<lambda>p. (p - ?m) ^ 2) prices) / real (length prices))"
  let ?neg = "filter (\<lambda>p. p < 0) prices"
  let ?zero = "filter (\<lambda>p. p = 0) prices"
  let ?valid = "?neg = [] \<and> ?zero = []"
  have "\<exists>outliers new.
          (if length prices > 1 then price_statistics (price_outlier_std v) prices
           else (p0, 0, [], [])) = (?m, ?sd, outliers, new)
        \<and> (\<forall>i\<in>set new. issue_type i = ''price_outlier'')"
  proof (cases "length prices > 1")
    case True
    then show ?thesis
      using price_statistics_values [of "price_outlier_std v" prices] by simp
  next
    case False
    then have "rest = []" using Cons by simp
    then show ?thesis using Cons by simp
  qed
  then obtain outliers new where
    st: "(if length prices > 1 then price_statistics (price_outlier_std v) prices
          else (p0, 0, [], [])) = (?m, ?sd, outliers, new)"
    and ty: "\<forall>i\<in>set new. issue_type i = ''price_outlier''"
    by blast
  let ?res = "PriceResult ?valid (price_min p0 rest) (price_max p0 rest) ?m ?sd
                (length ?neg) (length ?zero) (length outliers)"
  let ?new = "new @ map NegativePrice (take 10 ?neg)"
  have c: "check_price_range L v data = Inr (?res, v\<lparr>issues := issues v @ ?new\<rparr>)"
    using assms st unfolding Cons by (rule check_price_range_cons)
  have v: "check_valid ?res \<longleftrightarrow> \<not> (\<exists>p\<in>set prices. p < 0) \<and> \<not> (\<exists>p\<in>set prices. p = 0)"
    using no_negative_no_zero [of prices] by simp
  have f: "filter (\<lambda>i. issue_type i = ''negative_price'') ?new
           = map NegativePrice (take 10 ?neg)"
    using ty by (rule filter_negative_issues)
  have t: "\<forall>i\<in>set ?new. issue_type i = ''negative_price'' \<or> issue_type i = ''price_outlier''"
    using ty by auto
  have r: "\<exists>lo hi n z k. ?res = PriceResult (check_valid ?res) lo hi ?m ?sd n z k"
    by simp
  show ?thesis
    using c v f t r by (intro exI [of _ ?res] exI [of _ ?new]) blast
qed

text \<open>
  The prices 100, 100, 100, 100 and -5 with the default threshold 10: mean 79, standard
  deviation 42, no outlier, one \<^verbatim>\<open>negative_price\<close> issue, and the check is not valid.
\<close>

lemma sqrt_1764: "sqrt 1764 = 42"
  by (rule real_sqrt_unique) simp_all

lemma extract_prices_run:
  "extract_prices utc_host
     [[''close'' \<mapsto> VInt 100], [''close'' \<mapsto> VInt 100], [''close'' \<mapsto> VInt 100],
      [''close'' \<mapsto> VInt 100], [''close'' \<mapsto> VInt (- 5)]]
   = Inr [100, 100, 100, 100, - 5]"
  by (simp add: rescale_price_def)

lemma price_statistics_run:
  "price_statistics 10 [100, 100, 100, 100, - 5] = (79, 42, [], [])"
  by (simp add: price_statistics_def sqrt_1764)

lemma check_price_range_run:
  "check_price_range utc_host (DataValidator_init ''ohlcv-1h'' 60 10)
     [[''close'' \<mapsto> VInt 100], [''close'' \<mapsto> VInt 100], [''close'' \<mapsto> VInt 100],
      [''close'' \<mapsto> VInt 100], [''close'' \<mapsto> VInt (- 5)]]
   = Inr (PriceResult False (- 5) 100 79 42 1 0 0,
          (DataValidator_init ''ohlcv-1h'' 60 10)\<lparr>issues := [NegativePrice (- 5)]\<rparr>)"
proof -
  let ?v = "DataValidator_init ''ohlcv-1h'' 60 10"
  have t: "price_outlier_std ?v = 10" and i: "issues ?v = []"
    by (simp_all add: DataValidator_init_def)
  have "(if length [100, 100, 100, 100, - 5 :: real] > 1
         then price_statistics (price_outlier_std ?v) [100, 100, 100, 100, - 5]
         else (100, 0, [], [])) = (79, 42, [], [])"
    by (simp add: t price_statistics_run)
  from check_price_range_cons [OF extract_prices_run this]
  show ?thesis
    by (simp add: i price_min_def price_max_def)
qed

theorem price_range_check_witness:
  "extract_prices utc_host
     [[''close'' \<mapsto> VInt 100], [''close'' \<mapsto> VInt 100], [''close'' \<mapsto> VInt 100],
      [''close'' \<mapsto> VInt 100], [''close'' \<mapsto> VInt (- 5)]]
   = Inr [100, 100, 100, 100, - 5]
   \<and> check_price_range utc_host (DataValidator_init ''ohlcv-1h'' 60 10)
       [[''close'' \<mapsto> VInt 100], [''close'' \<mapsto> VInt 100], [''close'' \<mapsto> VInt 100],
        [''close'' \<mapsto> VInt 100], [''close'' \<mapsto> VInt (- 5)]]
     = Inr (PriceResult False (- 5) 100 79 42 1 0 0,
            (DataValidator_init ''ohlcv-1h'' 60 10)\<lparr>issues := [NegativePrice (- 5)]\<rparr>)
   \<and> \<not> check_valid (PriceResult False (- 5) 100 79 42 1 0 0)
   \<and> filter (\<lambda>i. issue_type i = ''negative_price'') [NegativePrice (- 5)] = [NegativePrice (- 5)]
   \<and> sum_list [100, 100, 100, 100, - 5 :: real] / real (length [100, 100, 100, 100, - 5 :: real])
       = 79
   \<and> sqrt (sum_list (map (\<lambda>p. (p - 79) ^ 2) [100, 100, 100, 100, - 5 :: real])
            / real (length [100, 100, 100, 100, - 5 :: real])) = 42"
proof -
  let ?v = "DataValidator_init ''ohlcv-1h'' 60 10"
  let ?data = "[[''close'' \<mapsto> VInt 100], [''close'' \<mapsto> VInt 100], [''close'' \<mapsto> VInt 100],
      [''close'' \<mapsto> VInt 100], [''close'' \<mapsto> VInt (- 5)]] :: market_record list"
  obtain res new where
    c: "check_price_range utc_host ?v ?data = Inr (res, ?v\<lparr>issues := issues ?v @ new\<rparr>)"
    and v: "check_valid res \<longleftrightarrow> \<not> (\<exists>p\<in>set [100, 100, 100, 100, - 5 :: real]. p < 0)
                            \<and> \<not> (\<exists>p\<in>set [100, 100, 100, 100, - 5 :: real]. p = 0)"
    using price_range_check [OF extract_prices_run, of ?v] by blast
  from c have "res = PriceResult False (- 5) 100 79 42 1 0 0"
    by (simp add: check_price_range_run)
  moreover from v have "\<not> check_valid res" by simp
  ultimately have "\<not> check_valid (PriceResult False (- 5) 100 79 42 1 0 0)" by simp
  then show ?thesis
    by (simp add: extract_prices_run check_price_range_run sqrt_1764 del: extract_prices.simps)
qed


section \<open>The issue list across calls\<close>

lemma check_timestamp_gaps_fresh:
  "check_timestamp_gaps L (v\<lparr>issues := pre\<rparr>) data =
     (case check_timestamp_gaps L (v\<lparr>issues := []\<rparr>) data of
        Inl e \<Rightarrow> Inl e
      | Inr (res, v0) \<Rightarrow> Inr (res, v\<lparr>issues := pre @ issues v0\<rparr>))"
  by (simp add: check_timestamp_gaps_def Let_def split: sum.splits)

lemma check_duplicates_fresh:
  "check_duplicates L (v\<lparr>issues := pre\<rparr>) data =
     (case check_duplicates L (v\<lparr>issues := []\<rparr>) data of
        Inl e \<Rightarrow> Inl e
      | Inr (res, v0) \<Rightarrow> Inr (res, v\<lparr>issues := pre @ issues v0\<rparr>))"
  by (simp add: check_duplicates_def Let_def split: sum.splits)

lemma check_price_range_fresh:
  "check_price_range L (v\<lparr>issues := pre\<rparr>) data =
     (case check_price_range L (v\<lparr>issues := []\<rparr>) data of
        Inl e \<Rightarrow> Inl e
      | Inr (res, v0) \<Rightarrow> Inr (res, v\<lparr>issues := pre @ issues v0\<rparr>))"
  by (simp add: check_price_range_def Let_def split: sum.splits list.splits prod.splits)

lemma check_record_count_fresh:
  "check_record_count (v\<lparr>issues := pre\<rparr>) data =
     (case check_record_count (v\<lparr>issues := []\<rparr>) data of
        (res, v0) \<Rightarrow> (res, v\<lparr>issues := pre @ issues v0\<rparr>))"
  by (simp add: check_record_count_def estimate_expected_count_def)

lemma check_completeness_fresh:
  "check_completeness (v\<lparr>issues := pre\<rparr>) data =
     (case check_completeness (v\<lparr>issues := []\<rparr>) data of
        (res, v0) \<Rightarrow> (res, v\<lparr>issues := pre @ issues v0\<rparr>))"
  by (simp add: check_completeness_def get_required_fields_def Let_def)

lemma check_timestamp_gaps_appends:
  "\<exists>r. \<forall>pre. check_timestamp_gaps L (v\<lparr>issues := pre\<rparr>) data =
     (case r of Inl e \<Rightarrow> Inl e | Inr (res, new) \<Rightarrow> Inr (res, v\<lparr>issues := pre @ new\<rparr>))"
proof (intro exI allI)
  fix pre
  show "check_timestamp_gaps L (v\<lparr>issues := pre\<rparr>) data =
     (case map_sum id (\<lambda>(res, v0). (res, issues v0))
             (check_timestamp_gaps L (v\<lparr>issues := []\<rparr>) data) of
        Inl e \<Rightarrow> Inl e | Inr (res, new) \<Rightarrow> Inr (res, v\<lparr>issues := pre @ new\<rparr>))"
    by (subst check_timestamp_gaps_fresh) (simp split: sum.splits)
qed

lemma check_duplicates_appends:
  "\<exists>r. \<forall>pre. check_duplicates L (v\<lparr>issues := pre\<rparr>) data =
     (case r of Inl e \<Rightarrow> Inl e | Inr (res, new) \<Rightarrow> Inr (res, v\<lparr>issues := pre @ new\<rparr>))"
proof (intro exI allI)
  fix pre
  show "check_duplicates L (v\<lparr>issues := pre\<rparr>) data =
     (case map_sum id (\<lambda>(res, v0). (res, issues v0))
             (check_duplicates L (v\<lparr>issues := []\<rparr>) data) of
        Inl e \<Rightarrow> Inl e | Inr (res, new) \<Rightarrow> Inr (res, v\<lparr>issues := pre @ new\<rparr>))"
    by (subst check_duplicates_fresh) (simp split: sum.splits)
qed

lemma check_price_range_appends:
  "\<exists>r. \<forall>pre. check_price_range L (v\<lparr>issues := pre\<rparr>) data =
     (case r of Inl e \<Rightarrow> Inl e | Inr (res, new) \<Rightarrow> Inr (res, v\<lparr>issues := pre @ new\<rparr>))"
proof (intro exI allI)
  fix pre
  show "check_price_range L (v\<lparr>issues := pre\<rparr>) data =
     (case map_sum id (\<lambda>(res, v0). (res, issues v0))
             (check_price_range L (v\<lparr>issues := []\<rparr>) data) of
        Inl e \<Rightarrow> Inl e | Inr (res, new) \<Rightarrow> Inr (res, v\<lparr>issues := pre @ new\<rparr>))"
    by (subst check_price_range_fresh) (simp split: sum.splits)
qed

lemma check_record_count_appends:
  "\<exists>r. \<forall>pre. check_record_count (v\<lparr>issues := pre\<rparr>) data =
     (case r of (res, new) \<Rightarrow> (res, v\<lparr>issues := pre @ new\<rparr>))"
proof (intro exI allI)
  fix pre
  show "check_record_count (v\<lparr>issues := pre\<rparr>) data =
     (case (case check_record_count (v\<lparr>issues := []\<rparr>) data of (res, v0) \<Rightarrow> (res, issues v0)) of
        (res, new) \<Rightarrow> (res, v\<lparr>issues := pre @ new\<rparr>))"
    by (subst check_record_count_fresh) (simp split: prod.splits)
qed

lemma check_completeness_appends:
  "\<exists>r. \<forall>pre. check_completeness (v\<lparr>issues := pre\<rparr>) data =
     (case r of (res, new) \<Rightarrow> (res, v\<lparr>issues := pre @ new\<rparr>))"
proof (intro exI allI)
  fix pre
  show "check_completeness (v\<lparr>issues := pre\<rparr>) data =
     (case (case check_completeness (v\<lparr>issues := []\<rparr>) data of (res, v0) \<Rightarrow> (res, issues v0)) of
        (res, new) \<Rightarrow> (res, v\<lparr>issues := pre @ new\<rparr>))"
    by (subst check_completeness_fresh) (simp split: prod.splits)
qed

lemma validate_appends:
  assumes "data \<noteq> []"
  shows "\<exists>r. \<forall>pre. validate L (v\<lparr>issues := pre\<rparr>) data =
     (case r of
        Inl e \<Rightarrow> Inl e
      | Inr (rep, new) \<Rightarrow>
          Inr (rep\<lparr>report_issues := Some (pre @ new)\<rparr>, v\<lparr>issues := pre @ new\<rparr>))"
proof -
  obtain r1 where g: "\<And>pre. check_timestamp_gaps L (v\<lparr>issues := pre\<rparr>) data =
     (case r1 of Inl e \<Rightarrow> Inl e | Inr (res, new) \<Rightarrow> Inr (res, v\<lparr>issues := pre @ new\<rparr>))"
    using check_timestamp_gaps_appends by blast
  obtain r2 where d: "\<And>pre. check_duplicates L (v\<lparr>issues := pre\<rparr>) data =
     (case r2 of Inl e \<Rightarrow> Inl e | Inr (res, new) \<Rightarrow> Inr (res, v\<lparr>issues := pre @ new\<rparr>))"
    using check_duplicates_appends by blast
  obtain r3 where p: "\<And>pre. check_price_range L (v\<lparr>issues := pre\<rparr>) data =
     (case r3 of Inl e \<Rightarrow> Inl e | Inr (res, new) \<Rightarrow> Inr (res, v\<lparr>issues := pre @ new\<rparr>))"
    using check_price_range_appends by blast
  obtain r4 where c: "\<And>pre. check_record_count (v\<lparr>issues := pre\<rparr>) data =
     (case r4 of (res, new) \<Rightarrow> (res, v\<lparr>issues := pre @ new\<rparr>))"
    using check_record_count_appends by blast
  obtain r5 where m: "\<And>pre. check_completeness (v\<lparr>issues := pre\<rparr>) data =
     (case r5 of (res, new) \<Rightarrow> (res, v\<lparr>issues := pre @ new\<rparr>))"
    using check_completeness_appends by blast
  let ?r = "case r1 of Inl e \<Rightarrow> Inl e | Inr (res1, n1) \<Rightarrow>
            (case r2 of Inl e \<Rightarrow> Inl e | Inr (res2, n2) \<Rightarrow>
            (case r3 of Inl e \<Rightarrow> Inl e | Inr (res3, n3) \<Rightarrow>
            (case r4 of (res4, n4) \<Rightarrow>
            (case r5 of (res5, n5) \<Rightarrow>
               Inr (\<lparr>total_records = length data,
                     valid = list_all (\<lambda>(name, check). check_valid check)
                               [(''timestamp_gaps'', res1), (''duplicates'', res2),
                                (''price_range'', res3), (''record_count'', res4),
                                (''data_completeness'', res5)],
                     checks = [(''timestamp_gaps'', res1), (''duplicates'', res2),
                               (''price_range'', res3), (''record_count'', res4),
                               (''data_completeness'', res5)],
                     report_issues = None\<rparr>,
                    n1 @ n2 @ n3 @ n4 @ n5)))))"
  have "\<forall>pre. validate L (v\<lparr>issues := pre\<rparr>) data =
     (case ?r of
        Inl e \<Rightarrow> Inl e
      | Inr (rep, new) \<Rightarrow>
          Inr (rep\<lparr>report_issues := Some (pre @ new)\<rparr>, v\<lparr>issues := pre @ new\<rparr>))"
    using assms by (simp add: validate_def g d p c m split: sum.splits prod.splits)
  then show ?thesis by blast
qed

lemma validate_keeps_configuration:
  assumes "validate L v data = Inr (rep, v')"
  shows "\<exists>new. v' = v\<lparr>issues := issues v @ new\<rparr>
             \<and> (data \<noteq> [] \<longrightarrow> report_issues rep = Some (issues v @ new))"
proof (cases "data = []")
  case True
  then have "v' = v\<lparr>issues := issues v @ []\<rparr>"
    using assms by (simp add: validate_def)
  then show ?thesis using True by blast
next
  case False
  obtain r where r: "\<And>pre. validate L (v\<lparr>issues := pre\<rparr>) data =
     (case r of
        Inl e \<Rightarrow> Inl e
      | Inr (rep, new) \<Rightarrow>
          Inr (rep\<lparr>report_issues := Some (pre @ new)\<rparr>, v\<lparr>issues := pre @ new\<rparr>))"
    using validate_appends [OF False] by blast
  have "validate L v data =
     (case r of
        Inl e \<Rightarrow> Inl e
      | Inr (rep, new) \<Rightarrow>
          Inr (rep\<lparr>report_issues := Some (issues v @ new)\<rparr>, v\<lparr>issues := issues v @ new\<rparr>))"
    using r [of "issues v"] by simp
  then show ?thesis
    using False assms by (auto split: sum.splits)
qed

text \<open>
  Claim C2, as the code has it. The list of issues belongs to the instance: \<^verbatim>\<open>__init__\<close> sets
  it to the empty list and \<^verbatim>\<open>validate\<close> never resets it. For two successive calls on an
  instance, the second one on a non-empty input, the report of the second call holds the
  issues the instance had before the first call, then those of the first call, then those
  of the second; the issues of the second call are the ones an instance with the same
  settings and an empty list reports for the second input.
\<close>

theorem issues_accumulate_across_calls:
  assumes "validate L v data1 = Inr (rep1, v1)"
    and "validate L v1 data2 = Inr (rep2, v2)"
    and "data2 \<noteq> []"
  shows "\<exists>new1 new2.
           v1 = v\<lparr>issues := issues v @ new1\<rparr>
         \<and> (data1 \<noteq> [] \<longrightarrow> report_issues rep1 = Some (issues v @ new1))
         \<and> report_issues rep2 = Some (issues v @ new1 @ new2)
         \<and> v2 = v\<lparr>issues := issues v @ new1 @ new2\<rparr>
         \<and> validate L (v\<lparr>issues := []\<rparr>) data2 =
             Inr (rep2\<lparr>report_issues := Some new2\<rparr>, v\<lparr>issues := new2\<rparr>)"
proof -
  obtain new1 where v1: "v1 = v\<lparr>issues := issues v @ new1\<rparr>"
    and rep1: "data1 \<noteq> [] \<longrightarrow> report_issues rep1 = Some (issues v @ new1)"
    using validate_keeps_configuration [OF assms(1)] by blast
  obtain r where r: "\<And>pre. validate L (v\<lparr>issues := pre\<rparr>) data2 =
     (case r of
        Inl e \<Rightarrow> Inl e
      | Inr (rep, new) \<Rightarrow>
          Inr (rep\<lparr>report_issues := Some (pre @ new)\<rparr>, v\<lparr>issues := pre @ new\<rparr>))"
    using validate_appends [OF assms(3)] by blast
  have "validate L (v\<lparr>issues := issues v @ new1\<rparr>) data2 = Inr (rep2, v2)"
    using assms(2) v1 by simp
  then have "(case r of
        Inl e \<Rightarrow> Inl e
      | Inr (rep, new) \<Rightarrow>
          Inr (rep\<lparr>report_issues := Some ((issues v @ new1) @ new)\<rparr>,
               v\<lparr>issues := (issues v @ new1) @ new\<rparr>)) = Inr (rep2, v2)"
    by (simp only: r)
  then obtain rep0 new2 where r0: "r = Inr (rep0, new2)"
    and rep2: "rep2 = rep0\<lparr>report_issues := Some ((issues v @ new1) @ new2)\<rparr>"
    and v2: "v2 = v\<lparr>issues := (issues v @ new1) @ new2\<rparr>"
    by (auto split: sum.splits)
  have "validate L (v\<lparr>issues := []\<rparr>) data2 =
          Inr (rep2\<lparr>report_issues := Some new2\<rparr>, v\<lparr>issues := new2\<rparr>)"
    by (simp add: r r0 rep2)
  then show ?thesis
    using v1 rep1 rep2 v2 by (intro exI [of _ new1] exI [of _ new2]) simp
qed

text \<open>
  Two calls on a new instance: a trade with the price -5, then a trade with the price 100.
  The report of the second call holds the issue of the first call, while a new instance
  reports no issue for the second input.
\<close>

lemma validate_run_negative:
  "validate utc_host (trades_instance pre) [trade_record 3600000000000 (- 5)]
   = Inr (\<lparr>total_records = 1, valid = False,
           checks =
             [(''timestamp_gaps'', GapNote True [] ''Insufficient data for gap detection''),
              (''duplicates'', DuplicateResult True 0 0),
              (''price_range'', PriceResult False (- 5) (- 5) (- 5) 0 1 0 0),
              (''record_count'', CountResult True 1 None
                 ''Expected count is estimated based on schema and date range''),
              (''data_completeness'', CompletenessResult True [])],
           report_issues = Some (pre @ [NegativePrice (- 5)])\<rparr>,
          trades_instance (pre @ [NegativePrice (- 5)]))"
  by (simp add: trades_instance_def trade_record_def validate_def check_timestamp_gaps_def
      check_duplicates_def check_price_range_def check_record_count_def
      check_completeness_def estimate_expected_count_def get_required_fields_def
      count_missing_def record_timestamp_def dict_get_def py_or_def rescale_price_def
      price_min_def price_max_def)

lemma validate_run_clean:
  "validate utc_host (trades_instance pre) [trade_record 7200000000000 100]
   = Inr (\<lparr>total_records = 1, valid = True,
           checks =
             [(''timestamp_gaps'', GapNote True [] ''Insufficient data for gap detection''),
              (''duplicates'', DuplicateResult True 0 0),
              (''price_range'', PriceResult True 100 100 100 0 0 0 0),
              (''record_count'', CountResult True 1 None
                 ''Expected count is estimated based on schema and date range''),
              (''data_completeness'', CompletenessResult True [])],
           report_issues = Some pre\<rparr>,
          trades_instance pre)"
  by (simp add: trades_instance_def trade_record_def validate_def check_timestamp_gaps_def
      check_duplicates_def check_price_range_def check_record_count_def
      check_completeness_def estimate_expected_count_def get_required_fields_def
      count_missing_def record_timestamp_def dict_get_def py_or_def rescale_price_def
      price_min_def price_max_def)

lemma trades_instance_init: "DataValidator_init ''trades'' 60 10 = trades_instance []"
  by (simp add: DataValidator_init_def trades_instance_def)

theorem issues_accumulate_across_calls_witness:
  "\<exists>rep1 rep2.
     validate utc_host (DataValidator_init ''trades'' 60 10)
       [trade_record 3600000000000 (- 5)]
       = Inr (rep1, trades_instance [NegativePrice (- 5)])
   \<and> validate utc_host (trades_instance [NegativePrice (- 5)])
       [trade_record 7200000000000 100]
       = Inr (rep2, trades_instance [NegativePrice (- 5)])
   \<and> report_issues rep1 = Some [NegativePrice (- 5)]
   \<and> report_issues rep2 = Some [NegativePrice (- 5)]
   \<and> validate utc_host (DataValidator_init ''trades'' 60 10)
       [trade_record 7200000000000 100]
       = Inr (rep2\<lparr>report_issues := Some []\<rparr>, DataValidator_init ''trades'' 60 10)"
proof -
  let ?v0 = "trades_instance []"
  let ?v1 = "trades_instance [NegativePrice (- 5)]"
  let ?d1 = "[trade_record 3600000000000 (- 5)]"
  let ?d2 = "[trade_record 7200000000000 100]"
  obtain rep1 where run1: "validate utc_host ?v0 ?d1 = Inr (rep1, ?v1)"
    using validate_run_negative [of "[]"] by simp
  obtain rep2 where run2: "validate utc_host ?v1 ?d2 = Inr (rep2, ?v1)"
    using validate_run_clean [of "[NegativePrice (- 5)]"] by simp
  have ne: "?d2 \<noteq> []" and ne1: "?d1 \<noteq> []" by simp_all
  obtain new1 new2 where
    v1: "?v1 = ?v0\<lparr>issues := issues ?v0 @ new1\<rparr>"
    and r1: "?d1 \<noteq> [] \<longrightarrow> report_issues rep1 = Some (issues ?v0 @ new1)"
    and r2: "report_issues rep2 = Some (issues ?v0 @ new1 @ new2)"
    and v2: "?v1 = ?v0\<lparr>issues := issues ?v0 @ new1 @ new2\<rparr>"
    and fresh: "validate utc_host (?v0\<lparr>issues := []\<rparr>) ?d2
                = Inr (rep2\<lparr>report_issues := Some new2\<rparr>, ?v0\<lparr>issues := new2\<rparr>)"
    using issues_accumulate_across_calls [OF run1 run2 ne] by blast
  have n1: "new1 = [NegativePrice (- 5)]"
    using v1 by (simp add: trades_instance_def)
  have n2: "new2 = []"
    using v2 n1 by (simp add: trades_instance_def)
  have e: "?v0\<lparr>issues := []\<rparr> = ?v0"
    by (simp add: trades_instance_def)
  show ?thesis
    using run1 run2 r1 r2 fresh
    unfolding n1 n2 e trades_instance_init
    by (intro exI [of _ rep1] exI [of _ rep2]) (simp add: trades_instance_def)
qed

text \<open>
  The same two calls, read from the outside: the instance after the first call holds the
  \<^verbatim>\<open>negative_price\<close> issue, the report of the second call lists it although the second
  input has no issue, and a new instance reports the empty list for the second input.
\<close>

theorem issues_leak_into_second_report:
  "map_sum id snd
     (validate utc_host (DataValidator_init ''trades'' 60 10)
        [trade_record 3600000000000 (- 5)])
     = Inr (trades_instance [NegativePrice (- 5)])
   \<and> map_sum id (report_issues \<circ> fst)
       (validate utc_host (trades_instance [NegativePrice (- 5)])
          [trade_record 7200000000000 100])
     = Inr (Some [NegativePrice (- 5)])
   \<and> map_sum id (report_issues \<circ> fst)
       (validate utc_host (DataValidator_init ''trades'' 60 10)
          [trade_record 7200000000000 100])
     = Inr (Some [])"
  unfolding trades_instance_init
  by (simp only: validate_run_negative validate_run_clean map_sum.simps snd_conv fst_conv
      comp_apply report.simps append_Nil simp_thms)

end
